theory Spec2Isabelle
  imports Main "HOL-Library.Multiset"
begin

section \<open>Candidate data storage: key scheme, listings and writes\<close>

text \<open>
  The development follows \<^verbatim>\<open>src/utils/storageUtils.js\<close> (the class
  \<^verbatim>\<open>StorageManager\<close>), the parts of \<^verbatim>\<open>src/controllers/audioController.js\<close>,
  \<^verbatim>\<open>src/utils/pdfUtils.js\<close> and \<^verbatim>\<open>src/middleware/upload.js\<close> that feed it.
  A JavaScript string is the list of its code units; paths and object keys are strings.
\<close>

subsection \<open>String primitives of the runtime\<close>

text \<open>\<^verbatim>\<open>String.prototype.startsWith\<close> and \<^verbatim>\<open>String.prototype.endsWith\<close>.\<close>

definition startsWith :: "string \<Rightarrow> string \<Rightarrow> bool" where
  "startsWith s p = (take (length p) s = p)"

definition endsWith :: "string \<Rightarrow> string \<Rightarrow> bool" where
  "endsWith s p = (length p \<le> length s \<and> drop (length s - length p) s = p)"

text \<open>
  \<^verbatim>\<open>s.replace(pat, rep)\<close> with a string pattern: the first occurrence of
  \<^verbatim>\<open>pat\<close> is replaced, the rest of the string is kept.
\<close>

fun replace_first :: "string \<Rightarrow> string \<Rightarrow> string \<Rightarrow> string" where
  "replace_first pat rep [] = (if pat = [] then rep else [])"
| "replace_first pat rep (c # cs) =
     (if take (length pat) (c # cs) = pat then rep @ drop (length pat) (c # cs)
      else c # replace_first pat rep cs)"

text \<open>\<^verbatim>\<open>key.split('/').pop()\<close>: the text after the last slash.\<close>

definition basename_of_key :: "string \<Rightarrow> string" where
  "basename_of_key k = rev (takeWhile (\<lambda>c. c \<noteq> CHR ''/'') (rev k))"

text \<open>
  \<^verbatim>\<open>path.join\<close> on segments that need no normalisation (no empty, \<^verbatim>\<open>.\<close> or
  \<^verbatim>\<open>..\<close> segment): the segments separated by a slash.
\<close>

fun path_join :: "string list \<Rightarrow> string" where
  "path_join [] = ''.''"
| "path_join [s] = s"
| "path_join (s # t # ts) = s @ ''/'' @ path_join (t # ts)"

text \<open>
  \<^verbatim>\<open>path.extname\<close> (POSIX flavour): trailing slashes are dropped, the last path
  component is taken, and the extension runs from its last dot to its end; it is empty when the
  component has no dot, when its only dot is its first character, and for the component
  \<^verbatim>\<open>..\<close>.
\<close>

definition last_component :: "string \<Rightarrow> string" where
  "last_component p = basename_of_key (rev (dropWhile (\<lambda>c. c = CHR ''/'') (rev p)))"

definition extname :: "string \<Rightarrow> string" where
  "extname p =
     (let b = last_component p;
          after = rev (takeWhile (\<lambda>c. c \<noteq> CHR ''.'') (rev b))
      in if CHR ''.'' \<notin> set b then []
         else if length after + 1 = length b then []
         else if b = ''..'' then []
         else CHR ''.'' # after)"

text \<open>\<^verbatim>\<open>String.prototype.toLowerCase\<close> on the ASCII letters.\<close>

definition lower_char :: "char \<Rightarrow> char" where
  "lower_char c =
     (case map_of (zip ''ABCDEFGHIJKLMNOPQRSTUVWXYZ'' ''abcdefghijklmnopqrstuvwxyz'') c of
        Some d \<Rightarrow> d
      | None \<Rightarrow> c)"

definition toLowerCase :: "string \<Rightarrow> string" where
  "toLowerCase s = map lower_char s"

subsection \<open>Key scheme and classification\<close>

datatype ArtifactKind = Audio | Transcript | Profile | Metadata | Html | Pdf

text \<open>
  The chain of tests both listings apply to a bare file name
  (\<^verbatim>\<open>_listFilesystemSessions\<close>, \<^verbatim>\<open>_getS3SessionData\<close>): the first test that
  succeeds decides, a name that passes none fills no slot.
\<close>

definition classify :: "string \<Rightarrow> ArtifactKind option" where
  "classify file =
     (if startsWith file ''audio_'' \<and> endsWith file ''.mp3'' then Some Audio
      else if file = ''transcript.txt'' then Some Transcript
      else if file = ''candidate_profile.json'' then Some Profile
      else if file = ''metadata.json'' then Some Metadata
      else if endsWith file ''.html'' then Some Html
      else if endsWith file ''.pdf'' then Some Pdf
      else None)"

text \<open>
  The uploaded file as \<^verbatim>\<open>multer\<close> hands it over: the client's file name, the client's
  MIME type and the path of the temporary copy.
\<close>

record upload_file =
  originalname :: string
  mimetype :: string
  temp_path :: string

text \<open>The \<^verbatim>\<open>fileFilter\<close> of the upload middleware.\<close>

definition fileFilter :: "upload_file \<Rightarrow> bool" where
  "fileFilter file =
     (mimetype file = ''audio/mpeg'' \<or> mimetype file = ''audio/mp3''
      \<or> toLowerCase (extname (originalname file)) = ''.mp3'')"

text \<open>
  \<^verbatim>\<open>path.extname(audioFile.originalname) || '.mp3'\<close> and
  \<^verbatim>\<open>`audio_${sessionId}${audioExtension}`\<close>.
\<close>

definition audioExtension :: "upload_file \<Rightarrow> string" where
  "audioExtension file = (if extname (originalname file) = [] then ''.mp3'' else extname (originalname file))"

definition audioFilename :: "string \<Rightarrow> upload_file \<Rightarrow> string" where
  "audioFilename sessionId file = ''audio_'' @ sessionId @ audioExtension file"

text \<open>
  \<^verbatim>\<open>generateCandidatePDF\<close>: the candidate's name with every character outside
  \<^verbatim>\<open>[a-zA-Z0-9]\<close> replaced by an underscore; without a name (absent or empty, both falsy)
  the literal \<^verbatim>\<open>candidate\<close>.
\<close>

definition alnum :: "char \<Rightarrow> bool" where
  "alnum c = (c \<in> set ''abcdefghijklmnopqrstuvwxyzABCDEFGHIJKLMNOPQRSTUVWXYZ0123456789'')"

definition sanitize :: "string \<Rightarrow> string" where
  "sanitize s = map (\<lambda>c. if alnum c then c else CHR ''_'') s"

definition candidateName :: "string option \<Rightarrow> string" where
  "candidateName candidate_name =
     (case candidate_name of
        None \<Rightarrow> ''candidate''
      | Some n \<Rightarrow> if n = [] then ''candidate'' else sanitize n)"

definition htmlFilename :: "string option \<Rightarrow> string \<Rightarrow> string" where
  "htmlFilename candidate_name timestamp = candidateName candidate_name @ ''_profile_'' @ timestamp @ ''.html''"

definition pdfFilename :: "string option \<Rightarrow> string \<Rightarrow> string" where
  "pdfFilename candidate_name timestamp = candidateName candidate_name @ ''_profile_'' @ timestamp @ ''.pdf''"

subsection \<open>Array.prototype.sort\<close>

text \<open>
  The listings sort with \<^verbatim>\<open>Array.prototype.sort\<close> and a comparison function of
  their own. The language fixes the result only for a consistent comparison function (then it
  is the stable sort); otherwise the order is left to the engine. The functions below are the
  engine's procedure (V8, on which Node runs) for arrays of fewer than 64 elements, where the
  whole array is one run: \<^verbatim>\<open>CountAndMakeRun\<close> takes the longest initial run, non-descending
  or strictly descending (then reversed), and \<^verbatim>\<open>BinaryInsertionSort\<close> inserts each
  remaining element into the sorted part by binary search. An array of 64 elements or more is
  cut into several such runs that are merged afterwards; the merge is not part of this
  development, and \<open>Array_sort\<close> leaves the result for such an array unspecified: whatever is
  stated below about a sorted array is stated for fewer than 64 elements.

  The comparison function returns a number or \<^verbatim>\<open>NaN\<close> (\<open>None\<close>); the engine
  reads \<^verbatim>\<open>NaN\<close> as \<open>0\<close>.
\<close>

definition sort_compare :: "('a \<Rightarrow> 'a \<Rightarrow> int option) \<Rightarrow> 'a \<Rightarrow> 'a \<Rightarrow> int" where
  "sort_compare comparefn x y = (case comparefn x y of None \<Rightarrow> 0 | Some v \<Rightarrow> v)"

function bsearch :: "('a \<Rightarrow> 'a \<Rightarrow> int) \<Rightarrow> 'a \<Rightarrow> 'a list \<Rightarrow> nat \<Rightarrow> nat \<Rightarrow> nat" where
  "bsearch cmp pivot ws left right =
     (if left < right
      then (let mid = left + (right - left) div 2
            in if cmp pivot (ws ! mid) < 0 then bsearch cmp pivot ws left mid
               else bsearch cmp pivot ws (mid + 1) right)
      else left)"
  by pat_completeness auto
termination
  by (relation "measure (\<lambda>(cmp, pivot, ws, left, right). right - left)") auto

declare bsearch.simps [simp del]

definition binary_insert :: "('a \<Rightarrow> 'a \<Rightarrow> int) \<Rightarrow> 'a list \<Rightarrow> 'a \<Rightarrow> 'a list" where
  "binary_insert cmp done pivot =
     (let left = bsearch cmp pivot done 0 (length done)
      in take left done @ pivot # drop left done)"

fun BinaryInsertionSort :: "('a \<Rightarrow> 'a \<Rightarrow> int) \<Rightarrow> 'a list \<Rightarrow> 'a list \<Rightarrow> 'a list" where
  "BinaryInsertionSort cmp done [] = done"
| "BinaryInsertionSort cmp done (pivot # rest) =
     BinaryInsertionSort cmp (binary_insert cmp done pivot) rest"

fun extend_run :: "('a \<Rightarrow> 'a \<Rightarrow> int) \<Rightarrow> bool \<Rightarrow> 'a \<Rightarrow> 'a list \<Rightarrow> nat" where
  "extend_run cmp isDescending previousElement [] = 0"
| "extend_run cmp isDescending previousElement (currentElement # rest) =
     (let order = cmp currentElement previousElement
      in if isDescending \<and> order \<ge> 0 then 0
         else if \<not> isDescending \<and> order < 0 then 0
         else Suc (extend_run cmp isDescending currentElement rest))"

definition CountAndMakeRun :: "('a \<Rightarrow> 'a \<Rightarrow> int) \<Rightarrow> 'a list \<Rightarrow> 'a list \<times> 'a list" where
  "CountAndMakeRun cmp ws =
     (case ws of
        elementHigh # elementLow # rest \<Rightarrow>
          (let isDescending = (cmp elementLow elementHigh < 0);
               runLength = 2 + extend_run cmp isDescending elementLow rest
           in ((if isDescending then rev (take runLength ws) else take runLength ws),
               drop runLength ws))
      | _ \<Rightarrow> (ws, []))"

definition Array_sort :: "('a \<Rightarrow> 'a \<Rightarrow> int option) \<Rightarrow> 'a list \<Rightarrow> 'a list" where
  "Array_sort comparefn ws =
     (if length ws < 2 then ws
      else if length ws < 64
      then (case CountAndMakeRun (sort_compare comparefn) ws of
              (run, rest) \<Rightarrow> BinaryInsertionSort (sort_compare comparefn) run rest)
      else undefined)"

subsection \<open>Documents, runtime values and errors\<close>

text \<open>
  A JSON document. Numbers are integers here: the store only passes numbers through and tests
  them for zero. A JavaScript value that may be \<^verbatim>\<open>undefined\<close> is a \<open>json option\<close>,
  with \<open>None\<close> for \<^verbatim>\<open>undefined\<close>.
\<close>

datatype json =
    JNull
  | JBool bool
  | JNum int
  | JStr string
  | JArr "json list"
  | JObj "(string \<times> json) list"

datatype error =
    ErrnoError string
  | TypeError
  | SyntaxError
  | ServiceError string
  | PlainError string

text \<open>\<^verbatim>\<open>error.code\<close>: only the errors of system calls carry one.\<close>

fun error_code :: "error \<Rightarrow> string option" where
  "error_code (ErrnoError c) = Some c"
| "error_code _ = None"

text \<open>Truthiness, as \<^verbatim>\<open>!v\<close>, \<^verbatim>\<open>v || w\<close> and \<^verbatim>\<open>if (v)\<close> read a value.\<close>

fun truthy :: "json option \<Rightarrow> bool" where
  "truthy None = False"
| "truthy (Some JNull) = False"
| "truthy (Some (JBool b)) = b"
| "truthy (Some (JNum n)) = (n \<noteq> 0)"
| "truthy (Some (JStr s)) = (s \<noteq> [])"
| "truthy (Some (JArr xs)) = True"
| "truthy (Some (JObj kvs)) = True"

text \<open>\<^verbatim>\<open>v || null\<close>.\<close>

definition or_null :: "json option \<Rightarrow> json" where
  "or_null v = (if truthy v then the v else JNull)"

text \<open>
  Reading a property \<^verbatim>\<open>v.k\<close> (for the keys the store reads, none of which is a built-in
  property of strings or arrays): \<^verbatim>\<open>null\<close> has no properties and the read throws, an
  object gives the value stored under the key, every other value gives \<^verbatim>\<open>undefined\<close>.
\<close>

fun get_property :: "json \<Rightarrow> string \<Rightarrow> error + json option" where
  "get_property JNull k = Inl TypeError"
| "get_property (JObj kvs) k = Inr (map_of kvs k)"
| "get_property _ k = Inr None"

text \<open>\<^verbatim>\<open>v?.k\<close> on a value that may be \<^verbatim>\<open>undefined\<close> or \<^verbatim>\<open>null\<close>.\<close>

fun optional_property :: "json option \<Rightarrow> string \<Rightarrow> json option" where
  "optional_property None k = None"
| "optional_property (Some JNull) k = None"
| "optional_property (Some (JObj kvs)) k = map_of kvs k"
| "optional_property (Some _) k = None"

text \<open>
  What a file or an object holds. \<open>JsonDoc d\<close> is a text that \<^verbatim>\<open>JSON.parse\<close> reads
  as the document \<open>d\<close>, in particular the text \<^verbatim>\<open>JSON.stringify(d, null, 2)\<close>;
  \<open>Text t\<close> is any text that does not parse.
\<close>

datatype content = Text string | JsonDoc json

fun JSON_parse :: "content \<Rightarrow> error + json" where
  "JSON_parse (Text t) = Inl SyntaxError"
| "JSON_parse (JsonDoc d) = Inr d"

definition JSON_stringify :: "json \<Rightarrow> content" where
  "JSON_stringify d = JsonDoc d"

text \<open>\<^verbatim>\<open>try { body } catch (error) { handler }\<close>.\<close>

definition try_catch :: "error + 'a \<Rightarrow> (error \<Rightarrow> error + 'a) \<Rightarrow> error + 'a" where
  "try_catch body handler = (case body of Inl e \<Rightarrow> handler e | Inr v \<Rightarrow> Inr v)"

text \<open>A \<^verbatim>\<open>for\<close> loop that awaits each element in turn and stops at the first throw.\<close>

fun for_each :: "('a \<Rightarrow> error + 'b) \<Rightarrow> 'a list \<Rightarrow> error + 'b list" where
  "for_each f [] = Inr []"
| "for_each f (x # xs) =
     (case f x of
        Inl e \<Rightarrow> Inl e
      | Inr y \<Rightarrow> (case for_each f xs of Inl e \<Rightarrow> Inl e | Inr ys \<Rightarrow> Inr (y # ys)))"

subsection \<open>The two stores\<close>

datatype fs_op = ReadFile | WriteFile | Mkdir | CopyFile

datatype s3_op = GetObject | PutObject

text \<open>The answer of \<^verbatim>\<open>ListObjectsV2\<close>; an absent member is \<open>None\<close>.\<close>

record list_response =
  CommonPrefixes :: "string list option"
  Contents :: "string list option"

text \<open>
  The configuration (\<^verbatim>\<open>config.storage\<close>, \<^verbatim>\<open>config.timezone\<close> as the offset from
  UTC, in seconds, in force at a given second), the runtime's reading of a date
  (\<^verbatim>\<open>new Date(v)\<close> as milliseconds, \<open>None\<close> for an invalid date), and the two stores.
  Files and objects are maps from path or key to content. What a directory listing or an object
  listing answers is a function of its own: listing and reading are separate calls, and nothing
  ties one to the other. \<open>fs_fault\<close> and \<open>s3_fault\<close> say which calls fail, and how.
  \<open>fs_settle\<close> and \<open>s3_settle\<close> give the moment at which a call on a path or key
  settles, counted from the start of the operation that issued it; they matter where calls run
  side by side.
\<close>

record world =
  storageType :: string
  candidateDataPath :: string
  candidateDataPrefix :: string
  bucketName :: string
  region :: string
  utcOffset :: "int \<Rightarrow> int"
  dateValue :: "json \<Rightarrow> int option"
  fs_files :: "string \<Rightarrow> content option"
  fs_readdir :: "string \<Rightarrow> error + (string \<times> bool) list"
  fs_fault :: "fs_op \<Rightarrow> string \<Rightarrow> error option"
  fs_settle :: "fs_op \<Rightarrow> string \<Rightarrow> nat"
  s3_objects :: "string \<Rightarrow> (content \<times> string) option"
  s3_list :: "string \<Rightarrow> bool \<Rightarrow> error + list_response"
  s3_fault :: "s3_op \<Rightarrow> string \<Rightarrow> error option"
  s3_settle :: "s3_op \<Rightarrow> string \<Rightarrow> nat"

text \<open>\<^verbatim>\<open>fs.promises.readFile(path, 'utf8')\<close>.\<close>

definition readFile :: "world \<Rightarrow> string \<Rightarrow> error + content" where
  "readFile w p =
     (case fs_fault w ReadFile p of
        Some e \<Rightarrow> Inl e
      | None \<Rightarrow> (case fs_files w p of None \<Rightarrow> Inl (ErrnoError ''ENOENT'') | Some c \<Rightarrow> Inr c))"

text \<open>\<^verbatim>\<open>fs.promises.readdir(path)\<close>, names only.\<close>

definition readdir_names :: "world \<Rightarrow> string \<Rightarrow> error + string list" where
  "readdir_names w p = (case fs_readdir w p of Inl e \<Rightarrow> Inl e | Inr ds \<Rightarrow> Inr (map fst ds))"

text \<open>\<^verbatim>\<open>_getS3Object\<close>.\<close>

definition getS3Object :: "world \<Rightarrow> string \<Rightarrow> error + content" where
  "getS3Object w key =
     (case s3_fault w GetObject key of
        Some e \<Rightarrow> Inl e
      | None \<Rightarrow> (case s3_objects w key of
                   None \<Rightarrow> Inl (ServiceError ''NoSuchKey'')
                 | Some (c, t) \<Rightarrow> Inr c))"

subsection \<open>Session records\<close>

text \<open>
  The record both listings build for a session. \<open>locators\<close> is \<^verbatim>\<open>files\<close> on the
  filesystem and \<^verbatim>\<open>s3Keys\<close> on the object store, \<open>container\<close> is
  \<^verbatim>\<open>sessionPath\<close> respectively \<^verbatim>\<open>bucket\<close>; a slot that is \<^verbatim>\<open>null\<close> is
  \<open>None\<close>.
\<close>

record session =
  sessionId :: string
  candidateId :: string
  sessionStorageType :: string
  container :: string
  locators :: "ArtifactKind \<Rightarrow> string option"
  links :: "ArtifactKind \<Rightarrow> string option"
  metadata :: json
  candidateProfile :: "(string \<times> json option) list"
  createdAt :: json
  originalFilename :: json

type_synonym slots = "(ArtifactKind \<Rightarrow> string option) \<times> (ArtifactKind \<Rightarrow> string option)"

definition no_slots :: slots where
  "no_slots = ((\<lambda>k. None), (\<lambda>k. None))"

text \<open>The body of the loop over the files of a session directory.\<close>

definition fs_assign :: "string \<Rightarrow> string \<Rightarrow> string \<Rightarrow> slots \<Rightarrow> string \<Rightarrow> slots" where
  "fs_assign sessionPath cid sid sl file =
     (let filePath = path_join [sessionPath, file];
          relativePath = path_join [''candidate-data'', cid, sid, file]
      in case classify file of
           None \<Rightarrow> sl
         | Some k \<Rightarrow> ((fst sl)(k := Some filePath), (snd sl)(k := Some (''/files/'' @ relativePath))))"

text \<open>The body of the loop over the objects of a session prefix.\<close>

definition s3_assign :: "world \<Rightarrow> slots \<Rightarrow> string \<Rightarrow> slots" where
  "s3_assign w sl key =
     (let fileName = basename_of_key key;
          s3Url = ''https://'' @ bucketName w @ ''.s3.'' @ region w @ ''.amazonaws.com/'' @ key
      in case classify fileName of
           None \<Rightarrow> sl
         | Some k \<Rightarrow> ((fst sl)(k := Some key), (snd sl)(k := Some s3Url)))"

text \<open>
  The summary both listings take from a parsed profile; the reads are inside the
  \<^verbatim>\<open>try\<close>, so the throw on a \<^verbatim>\<open>null\<close> profile is caught with the rest.
\<close>

definition profile_summary :: "json \<Rightarrow> error + (string \<times> json option) list" where
  "profile_summary profile =
     (case get_property profile ''candidate_name'' of Inl e \<Rightarrow> Inl e | Inr nm \<Rightarrow>
      case get_property profile ''contact'' of Inl e \<Rightarrow> Inl e | Inr contact \<Rightarrow>
      case get_property profile ''total_experience_years'' of Inl e \<Rightarrow> Inl e | Inr ex \<Rightarrow>
      case get_property profile ''summary'' of Inl e \<Rightarrow> Inl e | Inr su \<Rightarrow>
        Inr [(''name'', nm), (''location'', optional_property contact ''location''),
             (''experience'', ex), (''summary'', su)])"

text \<open>
  \<^verbatim>\<open>let metadata = {}; if (slot) { try { metadata = JSON.parse(await read(slot)) } catch { warn } }\<close>
\<close>

definition load_metadata :: "(string \<Rightarrow> error + content) \<Rightarrow> string option \<Rightarrow> json" where
  "load_metadata read slot =
     (case slot of
        None \<Rightarrow> JObj []
      | Some p \<Rightarrow>
          (case try_catch (case read p of Inl e \<Rightarrow> Inl e | Inr c \<Rightarrow> JSON_parse c)
                          (\<lambda>error. Inr (JObj [])) of
             Inr d \<Rightarrow> d
           | Inl e \<Rightarrow> JObj []))"

definition load_profile :: "(string \<Rightarrow> error + content) \<Rightarrow> string option \<Rightarrow> (string \<times> json option) list" where
  "load_profile read slot =
     (case slot of
        None \<Rightarrow> []
      | Some p \<Rightarrow>
          (case try_catch (case read p of Inl e \<Rightarrow> Inl e | Inr c \<Rightarrow>
                           case JSON_parse c of Inl e \<Rightarrow> Inl e | Inr profile \<Rightarrow>
                             profile_summary profile)
                          (\<lambda>error. Inr []) of
             Inr cp \<Rightarrow> cp
           | Inl e \<Rightarrow> []))"

text \<open>
  The object pushed for a session; \<^verbatim>\<open>metadata.processed_at || null\<close> and
  \<^verbatim>\<open>metadata.original_filename || null\<close> are read outside the inner
  \<^verbatim>\<open>try\<close> blocks.
\<close>

definition make_session ::
  "string \<Rightarrow> string \<Rightarrow> string \<Rightarrow> string \<Rightarrow> slots \<Rightarrow> json \<Rightarrow> (string \<times> json option) list \<Rightarrow> error + session" where
  "make_session sid cid st cont sl md cp =
     (case get_property md ''processed_at'' of Inl e \<Rightarrow> Inl e | Inr processed_at \<Rightarrow>
      case get_property md ''original_filename'' of Inl e \<Rightarrow> Inl e | Inr original_filename \<Rightarrow>
        Inr \<lparr>sessionId = sid, candidateId = cid, sessionStorageType = st, container = cont,
             locators = fst sl, links = snd sl, metadata = md, candidateProfile = cp,
             createdAt = or_null processed_at, originalFilename = or_null original_filename\<rparr>)"

text \<open>One turn of the loop of \<^verbatim>\<open>_listFilesystemSessions\<close> over the session directories.\<close>

definition fs_session :: "world \<Rightarrow> string \<Rightarrow> string \<Rightarrow> error + session" where
  "fs_session w cid sid =
     (let candidateDir = path_join [candidateDataPath w, cid];
          sessionPath = path_join [candidateDir, sid]
      in case readdir_names w sessionPath of
           Inl e \<Rightarrow> Inl e
         | Inr files \<Rightarrow>
             (let sl = foldl (fs_assign sessionPath cid sid) no_slots files;
                  md = load_metadata (readFile w) (fst sl Metadata);
                  cp = load_profile (readFile w) (fst sl Profile)
              in make_session sid cid ''filesystem'' sessionPath sl md cp))"

text \<open>
  The comparison function of both session listings:
  \<^verbatim>\<open>if (!a.createdAt || !b.createdAt) return 0; return new Date(b.createdAt) - new Date(a.createdAt)\<close>.
  The difference of two dates is \<^verbatim>\<open>NaN\<close> when one of them is invalid.
\<close>

definition compare_dates :: "(json \<Rightarrow> int option) \<Rightarrow> json \<Rightarrow> json \<Rightarrow> int option" where
  "compare_dates dv a b =
     (if \<not> truthy (Some a) \<or> \<not> truthy (Some b) then Some 0
      else (case (dv b, dv a) of (Some tb, Some ta) \<Rightarrow> Some (tb - ta) | _ \<Rightarrow> None))"

definition compareCreatedAt :: "world \<Rightarrow> session \<Rightarrow> session \<Rightarrow> int option" where
  "compareCreatedAt w a b = compare_dates (dateValue w) (createdAt a) (createdAt b)"

text \<open>\<^verbatim>\<open>catch (error) { if (error.code === 'ENOENT') return []; throw error; }\<close>\<close>

definition enoent_as_empty :: "error \<Rightarrow> error + 'a list" where
  "enoent_as_empty e = (if error_code e = Some ''ENOENT'' then Inr [] else Inl e)"

definition listFilesystemSessions :: "world \<Rightarrow> string \<Rightarrow> error + session list" where
  "listFilesystemSessions w cid =
     try_catch
       (case fs_readdir w (path_join [candidateDataPath w, cid]) of
          Inl e \<Rightarrow> Inl e
        | Inr sessions \<Rightarrow>
            (case for_each (fs_session w cid) (map fst (filter snd sessions)) of
               Inl e \<Rightarrow> Inl e
             | Inr sessionDetails \<Rightarrow> Inr (Array_sort (compareCreatedAt w) sessionDetails)))
       enoent_as_empty"

subsection \<open>The roster\<close>

record candidateInfo =
  ci_candidateId :: string
  sessionCount :: nat
  lastActivity :: json
  name :: "json option"
  location :: "json option"
  experience :: "json option"

text \<open>\<^verbatim>\<open>latestSession.candidateProfile?.name\<close> on the summary object of a session.\<close>

definition summary_property :: "(string \<times> json option) list \<Rightarrow> string \<Rightarrow> json option" where
  "summary_property cp k = (case map_of cp k of None \<Rightarrow> None | Some v \<Rightarrow> v)"

text \<open>
  The row of a candidate: \<^verbatim>\<open>sessions.length\<close> and, when there is a session, the fields of
  \<^verbatim>\<open>sessions[0]\<close>.
\<close>

definition candidate_row :: "string \<Rightarrow> session list \<Rightarrow> candidateInfo" where
  "candidate_row cid sessions =
     (case sessions of
        [] \<Rightarrow> \<lparr>ci_candidateId = cid, sessionCount = 0, lastActivity = JNull,
               name = Some JNull, location = Some JNull, experience = Some JNull\<rparr>
      | latestSession # others \<Rightarrow>
          \<lparr>ci_candidateId = cid, sessionCount = length sessions,
           lastActivity = createdAt latestSession,
           name = summary_property (candidateProfile latestSession) ''name'',
           location = summary_property (candidateProfile latestSession) ''location'',
           experience = summary_property (candidateProfile latestSession) ''experience''\<rparr>)"

definition compareLastActivity :: "world \<Rightarrow> candidateInfo \<Rightarrow> candidateInfo \<Rightarrow> int option" where
  "compareLastActivity w a b = compare_dates (dateValue w) (lastActivity a) (lastActivity b)"

definition listFilesystemCandidates :: "world \<Rightarrow> error + candidateInfo list" where
  "listFilesystemCandidates w =
     try_catch
       (case fs_readdir w (candidateDataPath w) of
          Inl e \<Rightarrow> Inl e
        | Inr candidates \<Rightarrow>
            (case for_each
                    (\<lambda>cid. case listFilesystemSessions w cid of
                              Inl e \<Rightarrow> Inl e
                            | Inr sessions \<Rightarrow> Inr (candidate_row cid sessions))
                    (map fst (filter snd candidates)) of
               Inl e \<Rightarrow> Inl e
             | Inr candidateList \<Rightarrow> Inr (Array_sort (compareLastActivity w) candidateList)))
       enoent_as_empty"

subsection \<open>Listings of the object store\<close>

text \<open>\<^verbatim>\<open>response.CommonPrefixes || []\<close> and \<^verbatim>\<open>listResponse.Contents || []\<close>.\<close>

definition or_empty :: "'a list option \<Rightarrow> 'a list" where
  "or_empty xs = (case xs of None \<Rightarrow> [] | Some l \<Rightarrow> l)"

text \<open>\<^verbatim>\<open>commonPrefix.Prefix.replace(prefix, '').replace('/', '')\<close>\<close>

definition id_of_prefix :: "string \<Rightarrow> string \<Rightarrow> string" where
  "id_of_prefix prefix commonPrefix = replace_first ''/'' [] (replace_first prefix [] commonPrefix)"

definition getS3SessionData :: "world \<Rightarrow> string \<Rightarrow> string \<Rightarrow> error + session option" where
  "getS3SessionData w cid sid =
     try_catch
       (let baseKey = candidateDataPrefix w @ ''/'' @ cid @ ''/'' @ sid
        in case s3_list w (baseKey @ ''/'') False of
             Inl e \<Rightarrow> Inl e
           | Inr listResponse \<Rightarrow>
               (let objects = or_empty (Contents listResponse);
                    sl = foldl (s3_assign w) no_slots objects;
                    md = load_metadata (getS3Object w) (fst sl Metadata);
                    cp = load_profile (getS3Object w) (fst sl Profile)
                in case make_session sid cid ''s3'' (bucketName w) sl md cp of
                     Inl e \<Rightarrow> Inl e
                   | Inr s \<Rightarrow> Inr (Some s)))
       (\<lambda>error. Inr None)"

text \<open>\<^verbatim>\<open>if (sessionData) sessions.push(sessionData)\<close>\<close>

definition non_null :: "'a option list \<Rightarrow> 'a list" where
  "non_null xs = concat (map (\<lambda>x. case x of None \<Rightarrow> [] | Some v \<Rightarrow> [v]) xs)"

definition listS3Sessions :: "world \<Rightarrow> string \<Rightarrow> error + session list" where
  "listS3Sessions w cid =
     try_catch
       (let prefix = candidateDataPrefix w @ ''/'' @ cid @ ''/''
        in case s3_list w prefix True of
             Inl e \<Rightarrow> Inl e
           | Inr response \<Rightarrow>
               (case for_each (\<lambda>commonPrefix. getS3SessionData w cid (id_of_prefix prefix commonPrefix))
                              (or_empty (CommonPrefixes response)) of
                  Inl e \<Rightarrow> Inl e
                | Inr sessionData \<Rightarrow> Inr (Array_sort (compareCreatedAt w) (non_null sessionData))))
       (\<lambda>error. Inr [])"

definition listS3Candidates :: "world \<Rightarrow> error + candidateInfo list" where
  "listS3Candidates w =
     try_catch
       (let prefix = candidateDataPrefix w @ ''/''
        in case s3_list w prefix True of
             Inl e \<Rightarrow> Inl e
           | Inr response \<Rightarrow>
               (case for_each
                       (\<lambda>commonPrefix.
                          let cid = id_of_prefix prefix commonPrefix
                          in case listS3Sessions w cid of
                               Inl e \<Rightarrow> Inl e
                             | Inr sessions \<Rightarrow> Inr (candidate_row cid sessions))
                       (or_empty (CommonPrefixes response)) of
                  Inl e \<Rightarrow> Inl e
                | Inr candidateList \<Rightarrow> Inr (Array_sort (compareLastActivity w) candidateList)))
       (\<lambda>error. Inr [])"

subsection \<open>Session identifiers\<close>

text \<open>
  \<^verbatim>\<open>moment().tz(config.timezone).format('YYYYMMDD-HHmmss')\<close> at the instant
  \<open>now\<close> (milliseconds since the epoch): the civil date and the time of day of the local
  second, each field padded with zeros (years 0 to 9999).
\<close>

definition digit :: "int \<Rightarrow> char" where
  "digit n = ''0123456789'' ! nat (n mod 10)"

definition pad2 :: "int \<Rightarrow> string" where
  "pad2 n = [digit (n div 10), digit n]"

definition pad4 :: "int \<Rightarrow> string" where
  "pad4 n = [digit (n div 1000), digit (n div 100), digit (n div 10), digit n]"

definition civil_from_days :: "int \<Rightarrow> int \<times> int \<times> int" where
  "civil_from_days days =
     (let z = days + 719468;
          era = z div 146097;
          doe = z mod 146097;
          yoe = (doe - doe div 1460 + doe div 36524 - doe div 146096) div 365;
          doy = doe - (365 * yoe + yoe div 4 - yoe div 100);
          mp = (5 * doy + 2) div 153;
          d = doy - (153 * mp + 2) div 5 + 1;
          m = (if mp < 10 then mp + 3 else mp - 9);
          y = yoe + era * 400 + (if m \<le> 2 then 1 else 0)
      in (y, m, d))"

definition format_second :: "int \<Rightarrow> string" where
  "format_second local =
     (let days = local div 86400;
          secs = local mod 86400
      in case civil_from_days days of
           (y, m, d) \<Rightarrow>
             pad4 y @ pad2 m @ pad2 d @ ''-'' @
             pad2 (secs div 3600) @ pad2 (secs mod 3600 div 60) @ pad2 (secs mod 60))"

definition generateTimestamp :: "world \<Rightarrow> int \<Rightarrow> string" where
  "generateTimestamp w now = format_second (now div 1000 + utcOffset w (now div 1000))"

subsection \<open>Writes\<close>

record generated_file =
  gf_filename :: string
  gf_path :: "string option"
  gf_buffer :: "content option"

record generated_files =
  gen_html :: "generated_file option"
  gen_pdf :: "generated_file option"

text \<open>
  The object a write returns. \<open>r_locators\<close> is \<^verbatim>\<open>paths\<close> on the filesystem and
  \<^verbatim>\<open>s3Keys\<close> on the object store.
\<close>

record storage_result =
  r_storageType :: string
  r_candidateId :: string
  r_sessionId :: string
  r_locators :: "ArtifactKind \<Rightarrow> string option"
  r_folder :: "string option"
  r_bucket :: "string option"

text \<open>
  One write: it fails as \<open>fs_fault\<close> says, and otherwise leaves the content under the path.
  The first component is the rejection, if any.
\<close>

definition writeFile :: "world \<Rightarrow> string \<times> content \<Rightarrow> error option \<times> world" where
  "writeFile w pc =
     (case fs_fault w WriteFile (fst pc) of
        Some e \<Rightarrow> (Some e, w)
      | None \<Rightarrow> (None, w\<lparr>fs_files := (fs_files w)(fst pc \<mapsto> snd pc)\<rparr>))"

definition copyFile :: "world \<Rightarrow> string \<Rightarrow> string \<Rightarrow> error option \<times> world" where
  "copyFile w src dst =
     (case fs_fault w CopyFile dst of
        Some e \<Rightarrow> (Some e, w)
      | None \<Rightarrow>
          (case fs_files w src of
             None \<Rightarrow> (Some (ErrnoError ''ENOENT''), w)
           | Some c \<Rightarrow> (None, w\<lparr>fs_files := (fs_files w)(dst \<mapsto> c)\<rparr>)))"

text \<open>\<^verbatim>\<open>uploadToS3\<close>: a put of the content and its content type under the key.\<close>

definition uploadToS3 :: "world \<Rightarrow> string \<times> content \<times> string \<Rightarrow> error option \<times> world" where
  "uploadToS3 w kct =
     (if storageType w \<noteq> ''s3''
      then (Some (PlainError ''S3 upload is only available when storage type is s3''), w)
      else (case s3_fault w PutObject (fst kct) of
              Some e \<Rightarrow> (Some e, w)
            | None \<Rightarrow> (None, w\<lparr>s3_objects := (s3_objects w)(fst kct \<mapsto> snd kct)\<rparr>)))"

text \<open>
  How a call ends. \<open>to_caller\<close> is what the awaiting caller gets, the returned object or
  the error thrown; it is \<open>None\<close> when the process ends before the call completes.
  \<open>unhandled\<close> is the rejection of a promise that has no handler at the moment it rejects:
  the runtime (Node 22 in the image; the program installs no handler for
  \<^verbatim>\<open>unhandledRejection\<close> or \<^verbatim>\<open>uncaughtException\<close>) raises it as an uncaught
  exception, which ends the process.
\<close>

record ending =
  to_caller :: "(error + storage_result) option"
  unhandled :: "error option"

text \<open>Calls that run side by side take effect in the order in which they settle.\<close>

definition in_settling_order :: "('a \<Rightarrow> nat) \<Rightarrow> 'a list \<Rightarrow> 'a list" where
  "in_settling_order settles xs = sort_key settles xs"

text \<open>
  Calls whose promises have a handler: each runs to its end whatever happens to the others.
  The result lists the rejections in the order of the list.
\<close>

fun start_all :: "(world \<Rightarrow> 'a \<Rightarrow> error option \<times> world) \<Rightarrow> world \<Rightarrow> 'a list \<Rightarrow> error option list \<times> world" where
  "start_all f w [] = ([], w)"
| "start_all f w (x # xs) =
     (case f w x of (r, w') \<Rightarrow> (case start_all f w' xs of (rs, w'') \<Rightarrow> (r # rs, w'')))"

text \<open>
  Calls whose promises have no handler, in the order in which they settle: the first rejection
  ends the process, and the calls that have not settled by then are lost.
\<close>

fun run_unhandled :: "(world \<Rightarrow> 'a \<Rightarrow> error option \<times> world) \<Rightarrow> world \<Rightarrow> 'a list \<Rightarrow> error option \<times> world" where
  "run_unhandled f w [] = (None, w)"
| "run_unhandled f w (x # xs) =
     (case f w x of
        (Some e, w') \<Rightarrow> (Some e, w')
      | (None, w') \<Rightarrow> run_unhandled f w' xs)"

text \<open>
  \<^verbatim>\<open>await Promise.all(promises)\<close>: rejected as soon as one promise is, that is with the
  first rejection of the list when the list is in settling order.
\<close>

fun Promise_all :: "error option list \<Rightarrow> error option" where
  "Promise_all [] = None"
| "Promise_all (None # rs) = Promise_all rs"
| "Promise_all (Some e # rs) = Some e"

text \<open>
  The end of both writers: \<^verbatim>\<open>await Promise.all(promises); return result\<close> on the calls
  still pending, given in settling order.
\<close>

definition await_all ::
  "(world \<Rightarrow> 'a \<Rightarrow> error option \<times> world) \<Rightarrow> world \<Rightarrow> 'a list \<Rightarrow> storage_result \<Rightarrow> ending \<times> world" where
  "await_all f w pending result =
     (case start_all f w pending of
        (rejections, w') \<Rightarrow>
          (\<lparr>to_caller = Some (case Promise_all rejections of Some e \<Rightarrow> Inl e | None \<Rightarrow> Inr result),
            unhandled = None\<rparr>, w'))"

text \<open>\<^verbatim>\<open>generatedFiles.html && generatedFiles.html.path\<close>, and the same for a buffer.\<close>

definition given_path :: "generated_file option \<Rightarrow> string option" where
  "given_path g =
     (case g of
        None \<Rightarrow> None
      | Some f \<Rightarrow> (case gf_path f of None \<Rightarrow> None | Some p \<Rightarrow> if p = [] then None else Some p))"

definition given_upload :: "string \<Rightarrow> generated_file option \<Rightarrow> string \<Rightarrow> (string \<times> content \<times> string) option" where
  "given_upload baseKey g contentType =
     (case g of
        None \<Rightarrow> None
      | Some f \<Rightarrow>
          (case gf_buffer f of
             None \<Rightarrow> None
           | Some b \<Rightarrow> Some (baseKey @ ''/'' @ gf_filename f, b, contentType)))"

text \<open>
  The \<^verbatim>\<open>result\<close> object of \<^verbatim>\<open>_saveToFilesystem\<close>: the three fixed paths and
  the folder, the audio path when an audio file is given, the html and pdf paths when the
  generated files carry one.
\<close>

definition fs_result :: "world \<Rightarrow> string \<Rightarrow> string \<Rightarrow> generated_files option \<Rightarrow> upload_file option \<Rightarrow> storage_result" where
  "fs_result w cid sid generatedFiles audioFile =
     (let candidateFolder = path_join [candidateDataPath w, cid, sid];
          paths = (\<lambda>k. None)(Transcript \<mapsto> path_join [candidateFolder, ''transcript.txt''],
                               Profile \<mapsto> path_join [candidateFolder, ''candidate_profile.json''],
                               Metadata \<mapsto> path_join [candidateFolder, ''metadata.json'']);
          paths1 = (case audioFile of
                      None \<Rightarrow> paths
                    | Some a \<Rightarrow> paths(Audio \<mapsto> path_join [candidateFolder, audioFilename sid a]));
          html = (case generatedFiles of None \<Rightarrow> None | Some g \<Rightarrow> given_path (gen_html g));
          pdf = (case generatedFiles of None \<Rightarrow> None | Some g \<Rightarrow> given_path (gen_pdf g));
          paths2 = (case html of None \<Rightarrow> paths1 | Some p \<Rightarrow> paths1(Html \<mapsto> p));
          paths3 = (case pdf of None \<Rightarrow> paths2 | Some p \<Rightarrow> paths2(Pdf \<mapsto> p))
      in \<lparr>r_storageType = ''filesystem'', r_candidateId = cid, r_sessionId = sid,
          r_locators = paths3, r_folder = Some candidateFolder, r_bucket = None\<rparr>)"

text \<open>
  \<^verbatim>\<open>_saveToFilesystem\<close>. The directory is made; the three base writes are started, and
  their promises are kept in \<^verbatim>\<open>savePromises\<close> without a handler. Without an audio file
  the promises are awaited together at once. With an audio file the copy is awaited first:
  a base write that rejects before the copy has settled has no handler; when the copy fails, the
  error goes to the caller and the base writes still pending never get a handler; when the
  copy succeeds, \<^verbatim>\<open>Promise.all\<close> takes the promises.
\<close>

definition saveToFilesystem ::
  "world \<Rightarrow> string \<Rightarrow> string \<Rightarrow> content \<Rightarrow> json \<Rightarrow> json \<Rightarrow> generated_files option \<Rightarrow> upload_file option
     \<Rightarrow> ending \<times> world" where
  "saveToFilesystem w cid sid transcript profile md generatedFiles audioFile =
     (let candidateFolder = path_join [candidateDataPath w, cid, sid];
          savePromises = in_settling_order (\<lambda>pc. fs_settle w WriteFile (fst pc))
                           [(path_join [candidateFolder, ''transcript.txt''], transcript),
                            (path_join [candidateFolder, ''candidate_profile.json''], JSON_stringify profile),
                            (path_join [candidateFolder, ''metadata.json''], JSON_stringify md)];
          result = fs_result w cid sid generatedFiles audioFile
      in case fs_fault w Mkdir candidateFolder of
           Some e \<Rightarrow> (\<lparr>to_caller = Some (Inl e), unhandled = None\<rparr>, w)
         | None \<Rightarrow>
             (case audioFile of
                None \<Rightarrow> await_all writeFile w savePromises result
              | Some a \<Rightarrow>
                  (let audioPath = path_join [candidateFolder, audioFilename sid a];
                       copied = fs_settle w CopyFile audioPath;
                       early = filter (\<lambda>pc. fs_settle w WriteFile (fst pc) < copied) savePromises;
                       late = filter (\<lambda>pc. \<not> fs_settle w WriteFile (fst pc) < copied) savePromises
                   in case run_unhandled writeFile w early of
                        (Some e, w1) \<Rightarrow> (\<lparr>to_caller = None, unhandled = Some e\<rparr>, w1)
                      | (None, w1) \<Rightarrow>
                          (case copyFile w1 (temp_path a) audioPath of
                             (Some e, w2) \<Rightarrow>
                               (case run_unhandled writeFile w2 late of
                                  (u, w3) \<Rightarrow> (\<lparr>to_caller = Some (Inl e), unhandled = u\<rparr>, w3))
                           | (None, w2) \<Rightarrow> await_all writeFile w2 late result))))"

text \<open>The three base uploads of \<^verbatim>\<open>_saveToS3\<close>, with their content types.\<close>

definition base_uploads :: "string \<Rightarrow> content \<Rightarrow> json \<Rightarrow> json \<Rightarrow> (string \<times> content \<times> string) list" where
  "base_uploads baseKey transcript profile md =
     [(baseKey @ ''/transcript.txt'', transcript, ''text/plain''),
      (baseKey @ ''/candidate_profile.json'', JSON_stringify profile, ''application/json''),
      (baseKey @ ''/metadata.json'', JSON_stringify md, ''application/json'')]"

text \<open>
  The uploads \<^verbatim>\<open>_saveToS3\<close> pushes after the three base uploads: the audio file read
  from its temporary path, with the uploaded MIME type or \<^verbatim>\<open>audio/mpeg\<close>, and the html
  and pdf buffers when the generated files carry one.
\<close>

definition audio_upload :: "string \<Rightarrow> string \<Rightarrow> upload_file \<Rightarrow> content \<Rightarrow> string \<times> content \<times> string" where
  "audio_upload baseKey sid a audioBuffer =
     (baseKey @ ''/'' @ audioFilename sid a, audioBuffer,
      if mimetype a = [] then ''audio/mpeg'' else mimetype a)"

definition generated_uploads :: "string \<Rightarrow> generated_files option \<Rightarrow> (string \<times> content \<times> string) list" where
  "generated_uploads baseKey generatedFiles =
     (case generatedFiles of
        None \<Rightarrow> []
      | Some g \<Rightarrow> non_null [given_upload baseKey (gen_html g) ''text/html'',
                            given_upload baseKey (gen_pdf g) ''application/pdf''])"

text \<open>The \<^verbatim>\<open>result\<close> object of \<^verbatim>\<open>_saveToS3\<close>.\<close>

definition s3_result :: "world \<Rightarrow> string \<Rightarrow> string \<Rightarrow> generated_files option \<Rightarrow> upload_file option \<Rightarrow> storage_result" where
  "s3_result w cid sid generatedFiles audioFile =
     (let baseKey = candidateDataPrefix w @ ''/'' @ cid @ ''/'' @ sid;
          s3Keys = (\<lambda>k. None)(Transcript \<mapsto> baseKey @ ''/transcript.txt'',
                                Profile \<mapsto> baseKey @ ''/candidate_profile.json'',
                                Metadata \<mapsto> baseKey @ ''/metadata.json'');
          keys1 = (case audioFile of
                     None \<Rightarrow> s3Keys
                   | Some a \<Rightarrow> s3Keys(Audio \<mapsto> baseKey @ ''/'' @ audioFilename sid a));
          html = (case generatedFiles of None \<Rightarrow> None | Some g \<Rightarrow> given_upload baseKey (gen_html g) ''text/html'');
          pdf = (case generatedFiles of None \<Rightarrow> None | Some g \<Rightarrow> given_upload baseKey (gen_pdf g) ''application/pdf'');
          keys2 = (case html of None \<Rightarrow> keys1 | Some u \<Rightarrow> keys1(Html \<mapsto> fst u));
          keys3 = (case pdf of None \<Rightarrow> keys2 | Some u \<Rightarrow> keys2(Pdf \<mapsto> fst u))
      in \<lparr>r_storageType = ''s3'', r_candidateId = cid, r_sessionId = sid,
          r_locators = keys3, r_folder = None, r_bucket = Some (bucketName w)\<rparr>)"

text \<open>
  \<^verbatim>\<open>_saveToS3\<close>. The three base uploads are started, and their promises are kept in
  \<^verbatim>\<open>uploadPromises\<close> without a handler. Without an audio file the uploads of the
  generated files are added and all promises are awaited together at once. With an audio file
  the file is read from its temporary path first, and the read is awaited: a base upload that
  rejects before the read has settled has no handler; when the read fails, the error goes to
  the caller and the base uploads still pending never get a handler; when the read succeeds,
  the uploads of the audio file and of the generated files are started and
  \<^verbatim>\<open>Promise.all\<close> takes all promises.
\<close>

definition saveToS3 ::
  "world \<Rightarrow> string \<Rightarrow> string \<Rightarrow> content \<Rightarrow> json \<Rightarrow> json \<Rightarrow> generated_files option \<Rightarrow> upload_file option
     \<Rightarrow> ending \<times> world" where
  "saveToS3 w cid sid transcript profile md generatedFiles audioFile =
     (let baseKey = candidateDataPrefix w @ ''/'' @ cid @ ''/'' @ sid;
          settles = (\<lambda>u. s3_settle w PutObject (fst u));
          uploadPromises = base_uploads baseKey transcript profile md;
          result = s3_result w cid sid generatedFiles audioFile
      in case audioFile of
           None \<Rightarrow>
             await_all uploadToS3 w
               (in_settling_order settles (uploadPromises @ generated_uploads baseKey generatedFiles)) result
         | Some a \<Rightarrow>
             (let read = fs_settle w ReadFile (temp_path a);
                  early = filter (\<lambda>u. settles u < read) uploadPromises;
                  late = filter (\<lambda>u. \<not> settles u < read) uploadPromises
              in case run_unhandled uploadToS3 w (in_settling_order settles early) of
                   (Some e, w1) \<Rightarrow> (\<lparr>to_caller = None, unhandled = Some e\<rparr>, w1)
                 | (None, w1) \<Rightarrow>
                     (case readFile w (temp_path a) of
                        Inl e \<Rightarrow>
                          (case run_unhandled uploadToS3 w1 (in_settling_order settles late) of
                             (u, w2) \<Rightarrow> (\<lparr>to_caller = Some (Inl e), unhandled = u\<rparr>, w2))
                      | Inr audioBuffer \<Rightarrow>
                          await_all uploadToS3 w1
                            (in_settling_order settles
                               (late @ [audio_upload baseKey sid a audioBuffer]
                                @ generated_uploads baseKey generatedFiles))
                            result)))"

text \<open>\<^verbatim>\<open>`${timestamp}-IST`\<close>, the session identifier of a write at the instant \<open>now\<close>.\<close>

definition new_session_id :: "world \<Rightarrow> int \<Rightarrow> string" where
  "new_session_id w now = generateTimestamp w now @ ''-IST''"

definition saveCandidateData ::
  "world \<Rightarrow> int \<Rightarrow> string \<Rightarrow> content \<Rightarrow> json \<Rightarrow> json \<Rightarrow> generated_files option \<Rightarrow> upload_file option
     \<Rightarrow> ending \<times> world" where
  "saveCandidateData w now cid transcript profile md generatedFiles audioFile =
     (let sessionId = new_session_id w now
      in if storageType w = ''filesystem''
         then saveToFilesystem w cid sessionId transcript profile md generatedFiles audioFile
         else if storageType w = ''s3''
         then saveToS3 w cid sessionId transcript profile md generatedFiles audioFile
         else (\<lparr>to_caller = Some (Inl (PlainError (''Unsupported storage type: '' @ storageType w))),
                unhandled = None\<rparr>, w))"


subsection \<open>Notions used in the statements\<close>

text \<open>
  The map that a sequence of writes leaves behind: each write that does not fail stores its value
  under its key, in the order of the sequence.
\<close>

definition writes_applied ::
  "(string \<Rightarrow> error option) \<Rightarrow> (string \<Rightarrow> 'v option) \<Rightarrow> (string \<times> 'v) list \<Rightarrow> (string \<Rightarrow> 'v option)" where
  "writes_applied fault m ws = foldl (\<lambda>m kv. if fault (fst kv) = None then m(fst kv \<mapsto> snd kv) else m) m ws"



text \<open>A document that cannot be read, or whose text does not parse.\<close>

definition unreadable :: "(string \<Rightarrow> error + content) \<Rightarrow> string \<Rightarrow> bool" where
  "unreadable read p =
     (case read p of
        Inl e \<Rightarrow> True
      | Inr c \<Rightarrow> (case JSON_parse c of Inl e \<Rightarrow> True | Inr d \<Rightarrow> False))"

text \<open>
  Sessions in the order the claim on the listing asks for: of two sessions that both carry a valid
  date, the one listed first is not the older one.
\<close>

definition newest_first :: "world \<Rightarrow> session list \<Rightarrow> bool" where
  "newest_first w ss =
     sorted_wrt
       (\<lambda>a b. case (dateValue w (createdAt a), dateValue w (createdAt b)) of
                 (Some ta, Some tb) \<Rightarrow> createdAt a = JNull \<or> createdAt b = JNull \<or> tb \<le> ta
               | _ \<Rightarrow> True) ss"

subsection \<open>Example stores\<close>

text \<open>A fresh installation on the filesystem: no directory, no file, no object.\<close>

definition fresh_world :: world where
  "fresh_world =
     \<lparr>storageType = ''filesystem'', candidateDataPath = ''candidate-data'',
      candidateDataPrefix = ''candidate-data'', bucketName = ''screener'', region = ''us-east-1'',
      utcOffset = (\<lambda>t. 19800), dateValue = (\<lambda>v. None),
      fs_files = Map.empty, fs_readdir = (\<lambda>p. Inl (ErrnoError ''ENOENT'')),
      fs_fault = (\<lambda>operation p. None), fs_settle = (\<lambda>operation p. 0),
      s3_objects = Map.empty,
      s3_list = (\<lambda>p d. Inr \<lparr>CommonPrefixes = None, Contents = None\<rparr>),
      s3_fault = (\<lambda>operation k. None), s3_settle = (\<lambda>operation k. 0)\<rparr>"

text \<open>A directory tree and the files in it, as a table.\<close>

definition readdir_of :: "(string \<times> (string \<times> bool) list) list \<Rightarrow> string \<Rightarrow> error + (string \<times> bool) list" where
  "readdir_of table p = (case map_of table p of None \<Rightarrow> Inl (ErrnoError ''ENOENT'') | Some ds \<Rightarrow> Inr ds)"

text \<open>The reading of the two dates that occur in the examples.\<close>

definition example_dates :: "json \<Rightarrow> int option" where
  "example_dates v =
     (if v = JStr ''2020-01-01T00:00:00.000Z'' then Some 1577836800000
      else if v = JStr ''2021-01-01T00:00:00.000Z'' then Some 1609459200000
      else None)"

definition named_profile :: "string \<Rightarrow> content" where
  "named_profile n = JsonDoc (JObj [(''candidate_name'', JStr n), (''summary'', JStr ''...'')])"

text \<open>
  One candidate with three sessions, in the order the directory lists them: one processed in
  2020, one whose metadata has no \<^verbatim>\<open>processed_at\<close>, one processed in 2021.
\<close>

definition three_sessions :: world where
  "three_sessions =
     fresh_world
       \<lparr>dateValue := example_dates,
        fs_readdir := readdir_of
          [(''candidate-data'', [(''c1'', True)]),
           (''candidate-data/c1'', [(''s1'', True), (''s2'', True), (''s3'', True)]),
           (''candidate-data/c1/s1'', [(''metadata.json'', False), (''candidate_profile.json'', False)]),
           (''candidate-data/c1/s2'', [(''metadata.json'', False), (''candidate_profile.json'', False)]),
           (''candidate-data/c1/s3'', [(''metadata.json'', False), (''candidate_profile.json'', False)])],
        fs_files := map_of
          [(''candidate-data/c1/s1/metadata.json'',
              JsonDoc (JObj [(''processed_at'', JStr ''2020-01-01T00:00:00.000Z'')])),
           (''candidate-data/c1/s1/candidate_profile.json'', named_profile ''A''),
           (''candidate-data/c1/s2/metadata.json'', JsonDoc (JObj [(''candidateId'', JStr ''c1'')])),
           (''candidate-data/c1/s2/candidate_profile.json'', named_profile ''B''),
           (''candidate-data/c1/s3/metadata.json'',
              JsonDoc (JObj [(''processed_at'', JStr ''2021-01-01T00:00:00.000Z'')])),
           (''candidate-data/c1/s3/candidate_profile.json'', named_profile ''C'')]\<rparr>"

text \<open>
  One candidate with two sessions: the first has no \<^verbatim>\<open>processed_at\<close>, the second was
  processed in 2021.
\<close>

definition two_sessions :: world where
  "two_sessions =
     fresh_world
       \<lparr>dateValue := example_dates,
        fs_readdir := readdir_of
          [(''candidate-data'', [(''c1'', True)]),
           (''candidate-data/c1'', [(''s1'', True), (''s2'', True)]),
           (''candidate-data/c1/s1'', [(''metadata.json'', False), (''candidate_profile.json'', False)]),
           (''candidate-data/c1/s2'', [(''metadata.json'', False), (''candidate_profile.json'', False)])],
        fs_files := map_of
          [(''candidate-data/c1/s1/metadata.json'', JsonDoc (JObj [(''candidateId'', JStr ''c1'')])),
           (''candidate-data/c1/s1/candidate_profile.json'', named_profile ''Old''),
           (''candidate-data/c1/s2/metadata.json'',
              JsonDoc (JObj [(''processed_at'', JStr ''2021-01-01T00:00:00.000Z'')])),
           (''candidate-data/c1/s2/candidate_profile.json'', named_profile ''New'')]\<rparr>"

text \<open>The answers of the object store, as a table from prefix and delimiter flag.\<close>

definition list_of :: "((string \<times> bool) \<times> list_response) list \<Rightarrow> string \<Rightarrow> bool \<Rightarrow> error + list_response" where
  "list_of table p d =
     (case map_of table (p, d) of
        None \<Rightarrow> Inr \<lparr>CommonPrefixes = None, Contents = None\<rparr>
      | Some r \<Rightarrow> Inr r)"

text \<open>
  A bucket with one candidate and two sessions: the metadata of the first does not parse, the
  metadata of the second carries a date.
\<close>

definition bucket_world :: world where
  "bucket_world =
     fresh_world
       \<lparr>storageType := ''s3'', dateValue := example_dates,
        s3_list := list_of
          [((''candidate-data/'', True),
              \<lparr>CommonPrefixes = Some [''candidate-data/c1/''], Contents = None\<rparr>),
           ((''candidate-data/c1/'', True),
              \<lparr>CommonPrefixes = Some [''candidate-data/c1/s1/'', ''candidate-data/c1/s2/''],
               Contents = None\<rparr>),
           ((''candidate-data/c1/s1/'', False),
              \<lparr>CommonPrefixes = None,
               Contents = Some [''candidate-data/c1/s1/metadata.json'',
                                ''candidate-data/c1/s1/candidate_profile.json'']\<rparr>),
           ((''candidate-data/c1/s2/'', False),
              \<lparr>CommonPrefixes = None,
               Contents = Some [''candidate-data/c1/s2/metadata.json'',
                                ''candidate-data/c1/s2/candidate_profile.json'']\<rparr>)],
        s3_objects := map_of
          [(''candidate-data/c1/s1/metadata.json'', (Text ''{'', ''application/json'')),
           (''candidate-data/c1/s1/candidate_profile.json'', (named_profile ''A'', ''application/json'')),
           (''candidate-data/c1/s2/metadata.json'',
              (JsonDoc (JObj [(''processed_at'', JStr ''2021-01-01T00:00:00.000Z'')]), ''application/json'')),
           (''candidate-data/c1/s2/candidate_profile.json'', (named_profile ''B'', ''application/json''))]\<rparr>"

text \<open>
  Two candidates on the disk. The metadata of the second session of \<^verbatim>\<open>c1\<close> is the JSON
  text \<^verbatim>\<open>null\<close>; every other document is in order. \<open>null_bucket\<close> is the same store as
  a bucket.
\<close>

definition null_metadata :: world where
  "null_metadata =
     fresh_world
       \<lparr>dateValue := example_dates,
        fs_readdir := readdir_of
          [(''candidate-data'', [(''c1'', True), (''c2'', True)]),
           (''candidate-data/c1'', [(''s1'', True), (''s2'', True)]),
           (''candidate-data/c1/s1'', [(''metadata.json'', False), (''candidate_profile.json'', False)]),
           (''candidate-data/c1/s2'', [(''metadata.json'', False), (''candidate_profile.json'', False)]),
           (''candidate-data/c2'', [(''s1'', True)]),
           (''candidate-data/c2/s1'', [(''metadata.json'', False), (''candidate_profile.json'', False)])],
        fs_files := map_of
          [(''candidate-data/c1/s1/metadata.json'',
              JsonDoc (JObj [(''processed_at'', JStr ''2020-01-01T00:00:00.000Z'')])),
           (''candidate-data/c1/s1/candidate_profile.json'', named_profile ''A''),
           (''candidate-data/c1/s2/metadata.json'', JsonDoc JNull),
           (''candidate-data/c1/s2/candidate_profile.json'', named_profile ''B''),
           (''candidate-data/c2/s1/metadata.json'',
              JsonDoc (JObj [(''processed_at'', JStr ''2021-01-01T00:00:00.000Z'')])),
           (''candidate-data/c2/s1/candidate_profile.json'', named_profile ''C'')]\<rparr>"

definition null_bucket :: world where
  "null_bucket =
     fresh_world
       \<lparr>storageType := ''s3'', dateValue := example_dates,
        s3_list := list_of
          [((''candidate-data/'', True),
              \<lparr>CommonPrefixes = Some [''candidate-data/c1/'', ''candidate-data/c2/''], Contents = None\<rparr>),
           ((''candidate-data/c1/'', True),
              \<lparr>CommonPrefixes = Some [''candidate-data/c1/s1/'', ''candidate-data/c1/s2/''],
               Contents = None\<rparr>),
           ((''candidate-data/c2/'', True),
              \<lparr>CommonPrefixes = Some [''candidate-data/c2/s1/''], Contents = None\<rparr>),
           ((''candidate-data/c1/s1/'', False),
              \<lparr>CommonPrefixes = None,
               Contents = Some [''candidate-data/c1/s1/metadata.json'',
                                ''candidate-data/c1/s1/candidate_profile.json'']\<rparr>),
           ((''candidate-data/c1/s2/'', False),
              \<lparr>CommonPrefixes = None,
               Contents = Some [''candidate-data/c1/s2/metadata.json'',
                                ''candidate-data/c1/s2/candidate_profile.json'']\<rparr>),
           ((''candidate-data/c2/s1/'', False),
              \<lparr>CommonPrefixes = None,
               Contents = Some [''candidate-data/c2/s1/metadata.json'',
                                ''candidate-data/c2/s1/candidate_profile.json'']\<rparr>)],
        s3_objects := map_of
          [(''candidate-data/c1/s1/metadata.json'',
              (JsonDoc (JObj [(''processed_at'', JStr ''2020-01-01T00:00:00.000Z'')]), ''application/json'')),
           (''candidate-data/c1/s1/candidate_profile.json'', (named_profile ''A'', ''application/json'')),
           (''candidate-data/c1/s2/metadata.json'', (JsonDoc JNull, ''application/json'')),
           (''candidate-data/c1/s2/candidate_profile.json'', (named_profile ''B'', ''application/json'')),
           (''candidate-data/c2/s1/metadata.json'',
              (JsonDoc (JObj [(''processed_at'', JStr ''2021-01-01T00:00:00.000Z'')]), ''application/json'')),
           (''candidate-data/c2/s1/candidate_profile.json'', (named_profile ''C'', ''application/json''))]\<rparr>"

text \<open>
  The three sessions again, with the directory of the second session closed to the process, and
  a bucket that refuses every listing.
\<close>

definition locked_session :: world where
  "locked_session =
     three_sessions
       \<lparr>fs_readdir := (\<lambda>p. if p = ''candidate-data/c1/s2'' then Inl (ErrnoError ''EACCES'')
                             else fs_readdir three_sessions p)\<rparr>"

definition denied_bucket :: world where
  "denied_bucket = bucket_world\<lparr>s3_list := (\<lambda>p d. Inl (ServiceError ''AccessDenied''))\<rparr>"

text \<open>
  A disk with a temporary upload on which every write of a \<^verbatim>\<open>metadata.json\<close> fails
  for lack of space, the writes settling before the copy of the audio file does; and a bucket
  that rejects every put of a \<^verbatim>\<open>metadata.json\<close>, the puts settling before the read of
  the temporary upload does.
\<close>

definition full_disk :: world where
  "full_disk =
     fresh_world
       \<lparr>fs_files := [''uploads/tmp1'' \<mapsto> Text ''ID3''],
        fs_fault := (\<lambda>operation p.
           if operation = WriteFile \<and> basename_of_key p = ''metadata.json''
           then Some (ErrnoError ''ENOSPC'') else None),
        fs_settle := (\<lambda>operation p. if operation = CopyFile then 2 else 1)\<rparr>"

definition throttled_bucket :: world where
  "throttled_bucket =
     fresh_world
       \<lparr>storageType := ''s3'',
        fs_files := [''uploads/tmp1'' \<mapsto> Text ''ID3''],
        fs_settle := (\<lambda>operation p. 2),
        s3_fault := (\<lambda>operation k.
           if operation = PutObject \<and> basename_of_key k = ''metadata.json''
           then Some (ServiceError ''SlowDown'') else None),
        s3_settle := (\<lambda>operation k. 1)\<rparr>"

definition interview_upload :: upload_file where
  "interview_upload = \<lparr>originalname = ''interview.mp3'', mimetype = ''audio/mpeg'', temp_path = ''uploads/tmp1''\<rparr>"













subsection \<open>Properties of the sort\<close>

lemma mset_binary_insert: "mset (binary_insert cmp ws pivot) = add_mset pivot (mset ws)"
proof -
  have "mset (take n ws) + mset (drop n ws) = mset ws" for n
    by (metis append_take_drop_id mset_append)
  then show ?thesis by (simp add: binary_insert_def Let_def)
qed

lemma mset_BinaryInsertionSort: "mset (BinaryInsertionSort cmp ws rest) = mset ws + mset rest"
  by (induction rest arbitrary: ws) (simp_all add: mset_binary_insert)

lemma CountAndMakeRun_mset:
  "CountAndMakeRun cmp ws = (run, rest) \<Longrightarrow> mset run + mset rest = mset ws"
proof -
  have td: "mset (take n xs) + mset (drop n xs) = mset xs" for n and xs :: "'a list"
    by (metis append_take_drop_id mset_append)
  assume "CountAndMakeRun cmp ws = (run, rest)"
  then show ?thesis
    by (auto simp: CountAndMakeRun_def Let_def td split: list.splits if_splits)
qed

lemma mset_Array_sort: "length ws < 64 \<Longrightarrow> mset (Array_sort comparefn ws) = mset ws"
proof (cases "length ws < 2")
  case True
  then show ?thesis by (simp add: Array_sort_def)
next
  case False
  assume short: "length ws < 64"
  obtain run rest where r: "CountAndMakeRun (sort_compare comparefn) ws = (run, rest)"
    by (cases "CountAndMakeRun (sort_compare comparefn) ws")
  then show ?thesis
    using False short CountAndMakeRun_mset[OF r] by (simp add: Array_sort_def mset_BinaryInsertionSort)
qed

section \<open>The claims\<close>

subsection \<open>File names of the rendered profile\<close>

lemma sanitize_chars: "\<forall>c\<in>set (sanitize s). alnum c \<or> c = CHR ''_''"
  by (auto simp: sanitize_def)

text \<open>
  Claim C10. For the candidate name \<^verbatim>\<open>John/Doe!\<close> the html and pdf file names start with the
  stem \<^verbatim>\<open>John_Doe_\<close>, which holds neither a slash nor an exclamation mark. For every name,
  no character outside \<^verbatim>\<open>[A-Za-z0-9_]\<close> is left in the stem: each character that is not a
  letter or a digit has become an underscore, in place (the length is kept). Without a name, absent
  or empty, the stem is the literal \<^verbatim>\<open>candidate\<close>.
\<close>

theorem sanitized_stem:
  "htmlFilename (Some ''John/Doe!'') ts = ''John_Doe_'' @ ''_profile_'' @ ts @ ''.html''
   \<and> pdfFilename (Some ''John/Doe!'') ts = ''John_Doe_'' @ ''_profile_'' @ ts @ ''.pdf''
   \<and> CHR ''/'' \<notin> set (candidateName (Some ''John/Doe!''))
   \<and> CHR ''!'' \<notin> set (candidateName (Some ''John/Doe!''))
   \<and> (\<forall>c\<in>set (candidateName nm). alnum c \<or> c = CHR ''_'')
   \<and> length (sanitize s) = length s
   \<and> (\<forall>i<length s. sanitize s ! i = (if alnum (s ! i) then s ! i else CHR ''_''))
   \<and> candidateName None = ''candidate''
   \<and> candidateName (Some []) = ''candidate''
   \<and> htmlFilename None ts = ''candidate_profile_'' @ ts @ ''.html''
   \<and> pdfFilename None ts = ''candidate_profile_'' @ ts @ ''.pdf''"
proof -
  have ex: "candidateName (Some ''John/Doe!'') = ''John_Doe_''"
    by (simp add: candidateName_def sanitize_def alnum_def)
  have all: "\<forall>c\<in>set (candidateName nm). alnum c \<or> c = CHR ''_''"
  proof (cases nm)
    case None
    then show ?thesis by (simp add: candidateName_def alnum_def)
  next
    case (Some n)
    then show ?thesis using sanitize_chars[of n] by (simp add: candidateName_def alnum_def)
  qed
  show ?thesis
    using ex all by (simp add: htmlFilename_def pdfFilename_def candidateName_def sanitize_def)
qed

theorem sanitized_stem_witness:
  "CHR ''a'' \<in> set (candidateName (Some ''a b'')) \<and> alnum (CHR ''a'')
   \<and> (1::nat) < length ''a b'' \<and> sanitize ''a b'' ! 1 = CHR ''_''
   \<and> htmlFilename (Some ''John/Doe!'') ''20240101-000000'' = ''John_Doe__profile_20240101-000000.html''"
  using sanitized_stem[of "''20240101-000000''" "Some ''a b''" "''a b''"]
  by (simp add: candidateName_def sanitize_def alnum_def)

subsection \<open>Key scheme against classification\<close>

text \<open>
  Claim C1. The name of a stored audio file takes its extension from the uploaded file, and the
  classification asks for the suffix \<^verbatim>\<open>.mp3\<close>: an upload named \<^verbatim>\<open>interview.MP3\<close>, which
  the upload filter accepts by its extension, is stored as
  \<^verbatim>\<open>audio_20240101-000000-IST.MP3\<close> and classified as nothing; so is an upload named
  \<^verbatim>\<open>interview.wav\<close> that the filter accepts by its MIME type; and the audio file of an upload
  named \<^verbatim>\<open>notes.html\<close> is classified as the html artifact. The round trip does not recover
  the audio kind there.
\<close>

theorem audio_extension_not_recovered:
  "fileFilter \<lparr>originalname = ''interview.MP3'', mimetype = ''application/octet-stream'', temp_path = ''uploads/1.mp3''\<rparr>
   \<and> audioFilename ''20240101-000000-IST''
        \<lparr>originalname = ''interview.MP3'', mimetype = ''application/octet-stream'', temp_path = ''uploads/1.mp3''\<rparr>
       = ''audio_20240101-000000-IST.MP3''
   \<and> classify ''audio_20240101-000000-IST.MP3'' = None
   \<and> fileFilter \<lparr>originalname = ''interview.wav'', mimetype = ''audio/mpeg'', temp_path = ''uploads/2.mp3''\<rparr>
   \<and> audioFilename ''20240101-000000-IST''
        \<lparr>originalname = ''interview.wav'', mimetype = ''audio/mpeg'', temp_path = ''uploads/2.mp3''\<rparr>
       = ''audio_20240101-000000-IST.wav''
   \<and> classify ''audio_20240101-000000-IST.wav'' = None
   \<and> fileFilter \<lparr>originalname = ''notes.html'', mimetype = ''audio/mpeg'', temp_path = ''uploads/3.mp3''\<rparr>
   \<and> classify (audioFilename ''20240101-000000-IST''
        \<lparr>originalname = ''notes.html'', mimetype = ''audio/mpeg'', temp_path = ''uploads/3.mp3''\<rparr>) = Some Html"
  by (simp add: fileFilter_def toLowerCase_def lower_char_def extname_def last_component_def
      basename_of_key_def audioFilename_def audioExtension_def classify_def startsWith_def endsWith_def)

subsection \<open>Listings that find nothing, listings that fail\<close>

lemma Array_sort_Nil [simp]: "Array_sort comparefn [] = []"
  by (simp add: Array_sort_def)

lemma Array_sort_single [simp]: "Array_sort comparefn [x] = [x]"
  by (simp add: Array_sort_def)

lemma try_catch_Inr [simp]: "try_catch (Inr v) handler = Inr v"
  by (simp add: try_catch_def)

lemma try_catch_Inl [simp]: "try_catch (Inl e) handler = handler e"
  by (simp add: try_catch_def)

lemma listFilesystemCandidates_readdir_fails:
  "fs_readdir w (candidateDataPath w) = Inl e \<Longrightarrow> listFilesystemCandidates w = enoent_as_empty e"
  by (simp add: listFilesystemCandidates_def)

lemma listFilesystemSessions_readdir_fails:
  "fs_readdir w (path_join [candidateDataPath w, cid]) = Inl e \<Longrightarrow>
   listFilesystemSessions w cid = enoent_as_empty e"
  by (simp add: listFilesystemSessions_def)

lemma listFilesystemCandidates_no_directory:
  "fs_readdir w (candidateDataPath w) = Inr ds \<Longrightarrow> filter snd ds = [] \<Longrightarrow>
   listFilesystemCandidates w = Inr []"
  by (simp add: listFilesystemCandidates_def)

lemma listFilesystemSessions_no_directory:
  "fs_readdir w (path_join [candidateDataPath w, cid]) = Inr ds \<Longrightarrow> filter snd ds = [] \<Longrightarrow>
   listFilesystemSessions w cid = Inr []"
  by (simp add: listFilesystemSessions_def)

lemma listS3Candidates_no_prefix:
  "s3_list w (candidateDataPrefix w @ ''/'') True = Inr response \<Longrightarrow>
   or_empty (CommonPrefixes response) = [] \<Longrightarrow> listS3Candidates w = Inr []"
  by (simp add: listS3Candidates_def)

lemma listS3Sessions_no_prefix:
  "s3_list w (candidateDataPrefix w @ ''/'' @ cid @ ''/'') True = Inr response \<Longrightarrow>
   or_empty (CommonPrefixes response) = [] \<Longrightarrow> listS3Sessions w cid = Inr []"
  by (simp add: listS3Sessions_def non_null_def)

lemma listS3Candidates_total: "\<exists>rows. listS3Candidates w = Inr rows"
  by (cases "listS3Candidates w")
     (auto simp: listS3Candidates_def try_catch_def Let_def split: sum.splits)

lemma listS3Sessions_total: "\<exists>sessions. listS3Sessions w cid = Inr sessions"
  by (cases "listS3Sessions w cid")
     (auto simp: listS3Sessions_def try_catch_def Let_def split: sum.splits)

lemma getS3SessionData_total: "\<exists>r. getS3SessionData w cid sid = Inr r"
  by (cases "getS3SessionData w cid sid")
     (auto simp: getS3SessionData_def try_catch_def Let_def split: sum.splits)

text \<open>
  Claim C6. When the candidate root does not exist (\<^verbatim>\<open>ENOENT\<close>) or holds no directory,
  the filesystem roster is the empty sequence, and so is the list of sessions of a candidate whose
  directory does not exist or holds no directory. On the object store, a listing that answers
  without common prefixes gives the empty roster and the empty list of sessions. None of these is
  an error.
\<close>

theorem missing_root_lists_nothing:
  "(fs_readdir w (candidateDataPath w) = Inl (ErrnoError ''ENOENT'')
      \<longrightarrow> listFilesystemCandidates w = Inr [])
   \<and> (fs_readdir w (candidateDataPath w) = Inr ds \<and> filter snd ds = []
      \<longrightarrow> listFilesystemCandidates w = Inr [])
   \<and> (fs_readdir w (path_join [candidateDataPath w, cid]) = Inl (ErrnoError ''ENOENT'')
      \<longrightarrow> listFilesystemSessions w cid = Inr [])
   \<and> (fs_readdir w (path_join [candidateDataPath w, cid]) = Inr ds \<and> filter snd ds = []
      \<longrightarrow> listFilesystemSessions w cid = Inr [])
   \<and> (s3_list w (candidateDataPrefix w @ ''/'') True = Inr response
        \<and> or_empty (CommonPrefixes response) = []
      \<longrightarrow> listS3Candidates w = Inr [])
   \<and> (s3_list w (candidateDataPrefix w @ ''/'' @ cid @ ''/'') True = Inr response
        \<and> or_empty (CommonPrefixes response) = []
      \<longrightarrow> listS3Sessions w cid = Inr [])"
  by (simp add: listFilesystemCandidates_readdir_fails listFilesystemSessions_readdir_fails
      listFilesystemCandidates_no_directory listFilesystemSessions_no_directory
      listS3Candidates_no_prefix listS3Sessions_no_prefix enoent_as_empty_def)

theorem missing_root_lists_nothing_witness:
  "fs_readdir fresh_world (candidateDataPath fresh_world) = Inl (ErrnoError ''ENOENT'')
   \<and> listFilesystemCandidates fresh_world = Inr []
   \<and> fs_readdir (fresh_world\<lparr>fs_readdir := (\<lambda>p. Inr [(''README.md'', False)])\<rparr>) ''candidate-data''
       = Inr [(''README.md'', False)]
   \<and> listFilesystemCandidates (fresh_world\<lparr>fs_readdir := (\<lambda>p. Inr [(''README.md'', False)])\<rparr>) = Inr []
   \<and> listFilesystemSessions fresh_world ''c1'' = Inr []
   \<and> listFilesystemSessions (fresh_world\<lparr>fs_readdir := (\<lambda>p. Inr [(''README.md'', False)])\<rparr>) ''c1'' = Inr []
   \<and> s3_list fresh_world ''candidate-data/'' True = Inr \<lparr>CommonPrefixes = None, Contents = None\<rparr>
   \<and> listS3Candidates fresh_world = Inr []
   \<and> listS3Sessions fresh_world ''c1'' = Inr []"
  using missing_root_lists_nothing[of fresh_world "[]" "''c1''" "\<lparr>CommonPrefixes = None, Contents = None\<rparr>"]
    missing_root_lists_nothing[of "fresh_world\<lparr>fs_readdir := (\<lambda>p. Inr [(''README.md'', False)])\<rparr>"
      "[(''README.md'', False)]" "''c1''" "\<lparr>CommonPrefixes = None, Contents = None\<rparr>"]
  by (simp add: fresh_world_def or_empty_def)

subsection \<open>What a session record holds\<close>

lemma for_each_Inr:
  "for_each f xs = Inr ys \<Longrightarrow> list_all2 (\<lambda>x y. f x = Inr y) xs ys"
proof (induction xs arbitrary: ys)
  case Nil
  then show ?case by simp
next
  case (Cons x xs)
  from Cons.prems obtain y zs where y: "f x = Inr y" and zs: "for_each f xs = Inr zs" and ys: "ys = y # zs"
    by (auto split: sum.splits)
  show ?case using Cons.IH[OF zs] y ys by simp
qed

lemma for_each_succeeds:
  "\<forall>x\<in>set xs. \<exists>y. f x = Inr y \<Longrightarrow> \<exists>ys. for_each f xs = Inr ys"
proof (induction xs)
  case Nil
  then show ?case by simp
next
  case (Cons x xs)
  then obtain y ys where "f x = Inr y" "for_each f xs = Inr ys" by auto
  then show ?case by simp
qed

lemma get_property_defined: "md \<noteq> JNull \<Longrightarrow> \<exists>v. get_property md k = Inr v"
  by (cases md) simp_all

lemma make_session_Inr:
  "make_session sid cid st cont sl md cp = Inr s \<longleftrightarrow>
   (\<exists>pa ofn. get_property md ''processed_at'' = Inr pa \<and> get_property md ''original_filename'' = Inr ofn
      \<and> s = \<lparr>sessionId = sid, candidateId = cid, sessionStorageType = st, container = cont,
             locators = fst sl, links = snd sl, metadata = md, candidateProfile = cp,
             createdAt = or_null pa, originalFilename = or_null ofn\<rparr>)"
  by (auto simp: make_session_def split: sum.splits)

lemma make_session_succeeds:
  "md \<noteq> JNull \<Longrightarrow> \<exists>s. make_session sid cid st cont sl md cp = Inr s"
  using get_property_defined[of md "''processed_at''"] get_property_defined[of md "''original_filename''"]
  by (auto simp: make_session_Inr)

lemma load_metadata_empty:
  "unreadable read p \<Longrightarrow> load_metadata read (Some p) = JObj []"
  by (auto simp: unreadable_def load_metadata_def split: sum.splits)

lemma load_profile_empty:
  "unreadable read p \<Longrightarrow> load_profile read (Some p) = []"
  by (auto simp: unreadable_def load_profile_def split: sum.splits)

lemma make_session_fields:
  "make_session sid cid st cont sl md cp = Inr s \<Longrightarrow>
   sessionId s = sid \<and> candidateId s = cid \<and> container s = cont \<and> locators s = fst sl
   \<and> links s = snd sl \<and> metadata s = md \<and> candidateProfile s = cp"
  by (auto simp: make_session_def split: sum.splits)

subsection \<open>Listings that fail, documents that fail\<close>

text \<open>
  Claim C7 fails on the code. In \<open>null_metadata\<close> the \<^verbatim>\<open>metadata.json\<close> of the session
  \<^verbatim>\<open>s2\<close> of the candidate \<^verbatim>\<open>c1\<close> is the text \<^verbatim>\<open>null\<close>. The text parses, so
  the inner \<^verbatim>\<open>try\<close> has nothing to catch; the read of \<^verbatim>\<open>metadata.processed_at\<close>
  that follows it, outside the \<^verbatim>\<open>try\<close>, throws a \<^verbatim>\<open>TypeError\<close>. On the filesystem
  the error leaves the loop: the list of the sessions of \<^verbatim>\<open>c1\<close> fails, and with it the
  whole roster, although the sibling session and the candidate \<^verbatim>\<open>c2\<close> are in order. On the
  object store the error is caught by \<^verbatim>\<open>_getS3SessionData\<close>, which answers
  \<^verbatim>\<open>null\<close>: the session is left out of the list, where the claim has it listed with an
  empty metadata object, and \<^verbatim>\<open>c1\<close> counts one session.
\<close>

theorem null_metadata_aborts_listing:
  "map_sum id sessionId (fs_session null_metadata ''c1'' ''s2'') = Inl TypeError
   \<and> map_sum id (map sessionId) (listFilesystemSessions null_metadata ''c1'') = Inl TypeError
   \<and> map_sum id (map sessionId) (listFilesystemSessions null_metadata ''c2'') = Inr [''s1'']
   \<and> map_sum id (map ci_candidateId) (listFilesystemCandidates null_metadata) = Inl TypeError
   \<and> map_sum id (map_option sessionId) (getS3SessionData null_bucket ''c1'' ''s2'') = Inr None
   \<and> map_sum id (map sessionId) (listS3Sessions null_bucket ''c1'') = Inr [''s1'']
   \<and> map_sum id (map (\<lambda>r. (ci_candidateId r, sessionCount r))) (listS3Candidates null_bucket)
       = Inr [(''c2'', 1), (''c1'', 1)]"
  by code_simp

lemma for_each_Inl:
  "\<forall>b\<in>set before. \<exists>y. f b = Inr y \<Longrightarrow> f x = Inl e \<Longrightarrow> for_each f (before @ x # after) = Inl e"
  by (induction before) auto

lemma make_session_empty:
  "make_session sid cid st cont sl (JObj []) cp =
     Inr \<lparr>sessionId = sid, candidateId = cid, sessionStorageType = st, container = cont,
          locators = fst sl, links = snd sl, metadata = JObj [], candidateProfile = cp,
          createdAt = JNull, originalFilename = JNull\<rparr>"
  by (simp add: make_session_def or_null_def)

lemma getS3SessionData_list_fails:
  "s3_list w (candidateDataPrefix w @ ''/'' @ cid @ ''/'' @ sid @ ''/'') False = Inl e \<Longrightarrow>
   getS3SessionData w cid sid = Inr None"
  by (simp add: getS3SessionData_def)

lemma getS3SessionData_form:
  "s3_list w (candidateDataPrefix w @ ''/'' @ cid @ ''/'' @ sid @ ''/'') False = Inr r \<Longrightarrow>
   getS3SessionData w cid sid =
     (case make_session sid cid ''s3'' (bucketName w) (foldl (s3_assign w) no_slots (or_empty (Contents r)))
             (load_metadata (getS3Object w) (fst (foldl (s3_assign w) no_slots (or_empty (Contents r))) Metadata))
             (load_profile (getS3Object w) (fst (foldl (s3_assign w) no_slots (or_empty (Contents r))) Profile)) of
        Inl e \<Rightarrow> Inr None
      | Inr s \<Rightarrow> Inr (Some s))"
  by (simp add: getS3SessionData_def Let_def split: sum.splits)

lemma fs_session_list_fails:
  "fs_readdir w (path_join [path_join [candidateDataPath w, cid], sid]) = Inl e \<Longrightarrow>
   fs_session w cid sid = Inl e"
  by (simp add: fs_session_def readdir_names_def)

lemma fs_session_form:
  "fs_readdir w (path_join [path_join [candidateDataPath w, cid], sid]) = Inr files \<Longrightarrow>
   fs_session w cid sid =
     make_session sid cid ''filesystem'' (path_join [path_join [candidateDataPath w, cid], sid])
       (foldl (fs_assign (path_join [path_join [candidateDataPath w, cid], sid]) cid sid) no_slots (map fst files))
       (load_metadata (readFile w)
          (fst (foldl (fs_assign (path_join [path_join [candidateDataPath w, cid], sid]) cid sid) no_slots
                  (map fst files)) Metadata))
       (load_profile (readFile w)
          (fst (foldl (fs_assign (path_join [path_join [candidateDataPath w, cid], sid]) cid sid) no_slots
                  (map fst files)) Profile))"
  by (simp add: fs_session_def readdir_names_def Let_def)

lemma listFilesystemSessions_never_ENOENT:
  "listFilesystemSessions w cid = Inl e \<Longrightarrow> error_code e \<noteq> Some ''ENOENT''"
  by (auto simp: listFilesystemSessions_def try_catch_def enoent_as_empty_def split: sum.splits if_splits)

lemma length_non_null: "length (non_null xs) \<le> length xs"
  by (induction xs) (auto simp: non_null_def split: option.splits)

lemma for_each_total:
  "\<forall>x\<in>set xs. \<exists>y. f x = Inr y \<Longrightarrow> for_each f xs = Inr (map (\<lambda>x. projr (f x)) xs)"
  by (induction xs) auto

lemma listS3Sessions_mset:
  assumes "s3_list w (candidateDataPrefix w @ ''/'' @ cid @ ''/'') True = Inr response"
    and "length (or_empty (CommonPrefixes response)) < 64"
  shows "\<exists>sessions. listS3Sessions w cid = Inr sessions
    \<and> mset sessions =
        mset (non_null (map (\<lambda>commonPrefix. projr (getS3SessionData w cid
                                (id_of_prefix (candidateDataPrefix w @ ''/'' @ cid @ ''/'') commonPrefix)))
                            (or_empty (CommonPrefixes response))))"
proof -
  let ?prefix = "candidateDataPrefix w @ ''/'' @ cid @ ''/''"
  let ?get = "\<lambda>commonPrefix. getS3SessionData w cid (id_of_prefix ?prefix commonPrefix)"
  let ?cps = "or_empty (CommonPrefixes response)"
  let ?ys = "map (\<lambda>x. projr (?get x)) ?cps"
  have "\<forall>x\<in>set ?cps. \<exists>y. ?get x = Inr y" using getS3SessionData_total by blast
  then have ys: "for_each ?get ?cps = Inr ?ys" by (rule for_each_total)
  have len: "length (non_null ?ys) < 64"
    using length_non_null[of ?ys] assms(2) by simp
  have "listS3Sessions w cid = Inr (Array_sort (compareCreatedAt w) (non_null ?ys))"
    using assms(1) ys by (simp add: listS3Sessions_def Let_def)
  then show ?thesis using mset_Array_sort[OF len, of "compareCreatedAt w"] by simp
qed

lemma listS3Candidates_mset:
  assumes "s3_list w (candidateDataPrefix w @ ''/'') True = Inr response"
    and "length (or_empty (CommonPrefixes response)) < 64"
  shows "\<exists>rows. listS3Candidates w = Inr rows
    \<and> mset rows =
        mset (map (\<lambda>commonPrefix.
                     candidate_row (id_of_prefix (candidateDataPrefix w @ ''/'') commonPrefix)
                       (projr (listS3Sessions w (id_of_prefix (candidateDataPrefix w @ ''/'') commonPrefix))))
                  (or_empty (CommonPrefixes response)))"
proof -
  let ?prefix = "candidateDataPrefix w @ ''/''"
  let ?row = "\<lambda>commonPrefix.
                 let cid = id_of_prefix ?prefix commonPrefix
                 in case listS3Sessions w cid of
                      Inl e \<Rightarrow> Inl e
                    | Inr sessions \<Rightarrow> Inr (candidate_row cid sessions)"
  let ?cps = "or_empty (CommonPrefixes response)"
  have row: "?row x = Inr (candidate_row (id_of_prefix ?prefix x)
                            (projr (listS3Sessions w (id_of_prefix ?prefix x))))" for x
    using listS3Sessions_total[of w "id_of_prefix ?prefix x"] by (auto simp: Let_def)
  then have "\<forall>x\<in>set ?cps. \<exists>y. ?row x = Inr y" by blast
  then have "for_each ?row ?cps = Inr (map (\<lambda>x. projr (?row x)) ?cps)" by (rule for_each_total)
  then have rows: "for_each ?row ?cps
      = Inr (map (\<lambda>x. candidate_row (id_of_prefix ?prefix x)
                          (projr (listS3Sessions w (id_of_prefix ?prefix x)))) ?cps)"
    by (simp only: row sum.sel)
  have len: "length (map (\<lambda>x. candidate_row (id_of_prefix ?prefix x)
                          (projr (listS3Sessions w (id_of_prefix ?prefix x)))) ?cps) < 64"
    using assms(2) by simp
  have "listS3Candidates w = Inr (Array_sort (compareLastActivity w)
          (map (\<lambda>x. candidate_row (id_of_prefix ?prefix x)
                          (projr (listS3Sessions w (id_of_prefix ?prefix x)))) ?cps))"
    using assms(1) rows by (simp add: listS3Candidates_def Let_def)
  then show ?thesis using mset_Array_sort[OF len, of "compareLastActivity w"] by simp
qed

text \<open>
  Claim C5. On the object store neither listing ever fails. When the listing call of
  \<^verbatim>\<open>listCandidates\<close> or of \<^verbatim>\<open>listCandidateSessions\<close> fails, the result is the
  empty list; when the listing call for the objects of one session fails, that session is
  answered with \<^verbatim>\<open>null\<close>. When the listing call succeeds (with fewer than 64 common
  prefixes), the list of sessions holds the answer for each common prefix that is not
  \<^verbatim>\<open>null\<close>, and the roster holds one row for each common prefix, made from the list of
  sessions of that candidate. A session whose metadata document cannot be read or does not
  parse is answered all the same, with the empty object as metadata and no date; a session whose
  profile document cannot be read or does not parse is answered with the empty profile
  (provided its metadata is not the document \<^verbatim>\<open>null\<close>, the case of C7). On the
  filesystem an error of the directory listing of the root, of the candidate directory or of a
  session directory is thrown to the caller of the list of sessions, and an error of the list of
  sessions of one candidate to the caller of the roster; only \<^verbatim>\<open>ENOENT\<close> becomes the empty
  list. A metadata or profile document that cannot be read or does not parse is tolerated there
  in the same way.
\<close>

theorem listing_failure_policy:
  assumes "root = candidateDataPrefix w @ ''/''"
    and "prefix = candidateDataPrefix w @ ''/'' @ cid @ ''/''"
    and "baseKey = candidateDataPrefix w @ ''/'' @ cid @ ''/'' @ sid"
    and "objectSlots = foldl (s3_assign w) no_slots (or_empty (Contents listResponse))"
    and "candidateDir = path_join [candidateDataPath w, cid]"
    and "sessionPath = path_join [candidateDir, sid]"
    and "fileSlots = foldl (fs_assign sessionPath cid sid) no_slots (map fst files)"
  shows "(\<exists>rows. listS3Candidates w = Inr rows)
   \<and> (\<exists>sessions. listS3Sessions w cid = Inr sessions)
   \<and> (s3_list w root True = Inl e \<longrightarrow> listS3Candidates w = Inr [])
   \<and> (s3_list w prefix True = Inl e \<longrightarrow> listS3Sessions w cid = Inr [])
   \<and> (s3_list w (baseKey @ ''/'') False = Inl e \<longrightarrow> getS3SessionData w cid sid = Inr None)
   \<and> (s3_list w prefix True = Inr response \<and> length (or_empty (CommonPrefixes response)) < 64
        \<longrightarrow> (\<exists>sessions. listS3Sessions w cid = Inr sessions
               \<and> mset sessions =
                   mset (non_null (map (\<lambda>commonPrefix. projr (getS3SessionData w cid
                                                                  (id_of_prefix prefix commonPrefix)))
                                       (or_empty (CommonPrefixes response))))))
   \<and> (s3_list w root True = Inr rootResponse \<and> length (or_empty (CommonPrefixes rootResponse)) < 64
        \<longrightarrow> (\<exists>rows. listS3Candidates w = Inr rows
               \<and> mset rows =
                   mset (map (\<lambda>commonPrefix.
                                candidate_row (id_of_prefix root commonPrefix)
                                  (projr (listS3Sessions w (id_of_prefix root commonPrefix))))
                             (or_empty (CommonPrefixes rootResponse)))))
   \<and> (s3_list w (baseKey @ ''/'') False = Inr listResponse
        \<and> fst objectSlots Metadata = Some key \<and> unreadable (getS3Object w) key
        \<longrightarrow> getS3SessionData w cid sid =
              Inr (Some \<lparr>sessionId = sid, candidateId = cid, sessionStorageType = ''s3'',
                         container = bucketName w, locators = fst objectSlots, links = snd objectSlots,
                         metadata = JObj [],
                         candidateProfile = load_profile (getS3Object w) (fst objectSlots Profile),
                         createdAt = JNull, originalFilename = JNull\<rparr>))
   \<and> (s3_list w (baseKey @ ''/'') False = Inr listResponse
        \<and> fst objectSlots Profile = Some key \<and> unreadable (getS3Object w) key
        \<and> load_metadata (getS3Object w) (fst objectSlots Metadata) \<noteq> JNull
        \<longrightarrow> (\<exists>s. getS3SessionData w cid sid = Inr (Some s) \<and> sessionId s = sid
                 \<and> candidateProfile s = []
                 \<and> metadata s = load_metadata (getS3Object w) (fst objectSlots Metadata)))
   \<and> (fs_readdir w (candidateDataPath w) = Inl e \<and> error_code e \<noteq> Some ''ENOENT''
        \<longrightarrow> listFilesystemCandidates w = Inl e)
   \<and> (fs_readdir w candidateDir = Inl e \<and> error_code e \<noteq> Some ''ENOENT''
        \<longrightarrow> listFilesystemSessions w cid = Inl e)
   \<and> (fs_readdir w sessionPath = Inl e \<longrightarrow> fs_session w cid sid = Inl e)
   \<and> (fs_readdir w candidateDir = Inr sessionEntries
        \<and> map fst (filter snd sessionEntries) = before @ sid # after
        \<and> (\<forall>b\<in>set before. \<exists>s. fs_session w cid b = Inr s)
        \<and> fs_session w cid sid = Inl e
        \<longrightarrow> listFilesystemSessions w cid = (if error_code e = Some ''ENOENT'' then Inr [] else Inl e))
   \<and> (fs_readdir w (candidateDataPath w) = Inr candidateEntries
        \<and> map fst (filter snd candidateEntries) = earlier @ cid # later
        \<and> (\<forall>b\<in>set earlier. \<exists>sessions. listFilesystemSessions w b = Inr sessions)
        \<and> listFilesystemSessions w cid = Inl e
        \<longrightarrow> listFilesystemCandidates w = Inl e)
   \<and> (fs_readdir w sessionPath = Inr files
        \<and> fst fileSlots Metadata = Some p \<and> unreadable (readFile w) p
        \<longrightarrow> fs_session w cid sid =
              Inr \<lparr>sessionId = sid, candidateId = cid, sessionStorageType = ''filesystem'',
                   container = sessionPath, locators = fst fileSlots, links = snd fileSlots,
                   metadata = JObj [],
                   candidateProfile = load_profile (readFile w) (fst fileSlots Profile),
                   createdAt = JNull, originalFilename = JNull\<rparr>)
   \<and> (fs_readdir w sessionPath = Inr files
        \<and> fst fileSlots Profile = Some p \<and> unreadable (readFile w) p
        \<and> load_metadata (readFile w) (fst fileSlots Metadata) \<noteq> JNull
        \<longrightarrow> (\<exists>s. fs_session w cid sid = Inr s \<and> sessionId s = sid
                 \<and> candidateProfile s = []
                 \<and> metadata s = load_metadata (readFile w) (fst fileSlots Metadata)))"
proof -
  have c1: "\<exists>rows. listS3Candidates w = Inr rows" by (rule listS3Candidates_total)
  have c2: "\<exists>sessions. listS3Sessions w cid = Inr sessions" by (rule listS3Sessions_total)
  have c3: "s3_list w root True = Inl e \<longrightarrow> listS3Candidates w = Inr []"
    by (simp add: listS3Candidates_def assms(1))
  have c4: "s3_list w prefix True = Inl e \<longrightarrow> listS3Sessions w cid = Inr []"
    by (simp add: listS3Sessions_def assms(2))
  have c5: "s3_list w (baseKey @ ''/'') False = Inl e \<longrightarrow> getS3SessionData w cid sid = Inr None"
    using getS3SessionData_list_fails[of w cid sid e] by (simp add: assms(3))
  have c6: "s3_list w prefix True = Inr response \<and> length (or_empty (CommonPrefixes response)) < 64
        \<longrightarrow> (\<exists>sessions. listS3Sessions w cid = Inr sessions
               \<and> mset sessions =
                   mset (non_null (map (\<lambda>commonPrefix. projr (getS3SessionData w cid
                                                                  (id_of_prefix prefix commonPrefix)))
                                       (or_empty (CommonPrefixes response)))))"
    unfolding assms(2) using listS3Sessions_mset[of w cid response] by blast
  have c7: "s3_list w root True = Inr rootResponse \<and> length (or_empty (CommonPrefixes rootResponse)) < 64
        \<longrightarrow> (\<exists>rows. listS3Candidates w = Inr rows
               \<and> mset rows =
                   mset (map (\<lambda>commonPrefix.
                                candidate_row (id_of_prefix root commonPrefix)
                                  (projr (listS3Sessions w (id_of_prefix root commonPrefix))))
                             (or_empty (CommonPrefixes rootResponse))))"
    unfolding assms(1) using listS3Candidates_mset[of w rootResponse] by blast
  have form: "getS3SessionData w cid sid =
       (case make_session sid cid ''s3'' (bucketName w) objectSlots
               (load_metadata (getS3Object w) (fst objectSlots Metadata))
               (load_profile (getS3Object w) (fst objectSlots Profile)) of
          Inl e \<Rightarrow> Inr None | Inr s \<Rightarrow> Inr (Some s))"
    if "s3_list w (baseKey @ ''/'') False = Inr listResponse"
    using getS3SessionData_form[of w cid sid listResponse] that by (simp add: assms(3,4))
  have c8: "s3_list w (baseKey @ ''/'') False = Inr listResponse
        \<and> fst objectSlots Metadata = Some key \<and> unreadable (getS3Object w) key
        \<longrightarrow> getS3SessionData w cid sid =
              Inr (Some \<lparr>sessionId = sid, candidateId = cid, sessionStorageType = ''s3'',
                         container = bucketName w, locators = fst objectSlots, links = snd objectSlots,
                         metadata = JObj [],
                         candidateProfile = load_profile (getS3Object w) (fst objectSlots Profile),
                         createdAt = JNull, originalFilename = JNull\<rparr>)"
    using form by (simp add: load_metadata_empty make_session_empty)
  have c9: "s3_list w (baseKey @ ''/'') False = Inr listResponse
        \<and> fst objectSlots Profile = Some key \<and> unreadable (getS3Object w) key
        \<and> load_metadata (getS3Object w) (fst objectSlots Metadata) \<noteq> JNull
        \<longrightarrow> (\<exists>s. getS3SessionData w cid sid = Inr (Some s) \<and> sessionId s = sid
                 \<and> candidateProfile s = []
                 \<and> metadata s = load_metadata (getS3Object w) (fst objectSlots Metadata))"
  proof (intro impI, elim conjE)
    assume l: "s3_list w (baseKey @ ''/'') False = Inr listResponse"
      and k: "fst objectSlots Profile = Some key" "unreadable (getS3Object w) key"
      and m: "load_metadata (getS3Object w) (fst objectSlots Metadata) \<noteq> JNull"
    obtain s where s: "make_session sid cid ''s3'' (bucketName w) objectSlots
               (load_metadata (getS3Object w) (fst objectSlots Metadata)) [] = Inr s"
      using make_session_succeeds[OF m] by blast
    have "getS3SessionData w cid sid = Inr (Some s)"
      using form[OF l] s k by (simp add: load_profile_empty)
    then show "\<exists>s. getS3SessionData w cid sid = Inr (Some s) \<and> sessionId s = sid
                 \<and> candidateProfile s = []
                 \<and> metadata s = load_metadata (getS3Object w) (fst objectSlots Metadata)"
      using make_session_fields[OF s] by blast
  qed
  have c10: "fs_readdir w (candidateDataPath w) = Inl e \<and> error_code e \<noteq> Some ''ENOENT''
        \<longrightarrow> listFilesystemCandidates w = Inl e"
    by (simp add: listFilesystemCandidates_readdir_fails enoent_as_empty_def)
  have c11: "fs_readdir w candidateDir = Inl e \<and> error_code e \<noteq> Some ''ENOENT''
        \<longrightarrow> listFilesystemSessions w cid = Inl e"
    unfolding assms(5) by (simp add: listFilesystemSessions_readdir_fails enoent_as_empty_def del: path_join.simps)
  have c12: "fs_readdir w sessionPath = Inl e \<longrightarrow> fs_session w cid sid = Inl e"
    unfolding assms(5,6) using fs_session_list_fails[of w cid sid e] by blast
  have c13: "fs_readdir w candidateDir = Inr sessionEntries
        \<and> map fst (filter snd sessionEntries) = before @ sid # after
        \<and> (\<forall>b\<in>set before. \<exists>s. fs_session w cid b = Inr s)
        \<and> fs_session w cid sid = Inl e
        \<longrightarrow> listFilesystemSessions w cid = (if error_code e = Some ''ENOENT'' then Inr [] else Inl e)"
  proof (intro impI, elim conjE)
    assume d: "fs_readdir w candidateDir = Inr sessionEntries"
      and l: "map fst (filter snd sessionEntries) = before @ sid # after"
      and b: "\<forall>b\<in>set before. \<exists>s. fs_session w cid b = Inr s"
      and f: "fs_session w cid sid = Inl e"
    have "for_each (fs_session w cid) (before @ sid # after) = Inl e"
      using b f by (rule for_each_Inl)
    then show "listFilesystemSessions w cid = (if error_code e = Some ''ENOENT'' then Inr [] else Inl e)"
      using d l unfolding assms(5)
      by (simp add: listFilesystemSessions_def enoent_as_empty_def del: path_join.simps)
  qed
  have c14: "fs_readdir w (candidateDataPath w) = Inr candidateEntries
        \<and> map fst (filter snd candidateEntries) = earlier @ cid # later
        \<and> (\<forall>b\<in>set earlier. \<exists>sessions. listFilesystemSessions w b = Inr sessions)
        \<and> listFilesystemSessions w cid = Inl e
        \<longrightarrow> listFilesystemCandidates w = Inl e"
  proof (intro impI, elim conjE)
    assume d: "fs_readdir w (candidateDataPath w) = Inr candidateEntries"
      and l: "map fst (filter snd candidateEntries) = earlier @ cid # later"
      and b: "\<forall>b\<in>set earlier. \<exists>sessions. listFilesystemSessions w b = Inr sessions"
      and f: "listFilesystemSessions w cid = Inl e"
    let ?row = "\<lambda>cid. case listFilesystemSessions w cid of
                        Inl e \<Rightarrow> Inl e | Inr sessions \<Rightarrow> Inr (candidate_row cid sessions)"
    have "\<forall>b\<in>set earlier. \<exists>y. ?row b = Inr y" using b by auto
    moreover have "?row cid = Inl e" using f by simp
    ultimately have "for_each ?row (earlier @ cid # later) = Inl e" by (rule for_each_Inl)
    moreover have "error_code e \<noteq> Some ''ENOENT''" using f by (rule listFilesystemSessions_never_ENOENT)
    ultimately show "listFilesystemCandidates w = Inl e"
      using d l by (simp add: listFilesystemCandidates_def enoent_as_empty_def)
  qed
  have fsform: "fs_session w cid sid =
       make_session sid cid ''filesystem'' sessionPath fileSlots
         (load_metadata (readFile w) (fst fileSlots Metadata))
         (load_profile (readFile w) (fst fileSlots Profile))"
    if "fs_readdir w sessionPath = Inr files"
    using that fs_session_form[of w cid sid files] unfolding assms(5,6,7) by blast
  have c15: "fs_readdir w sessionPath = Inr files
        \<and> fst fileSlots Metadata = Some p \<and> unreadable (readFile w) p
        \<longrightarrow> fs_session w cid sid =
              Inr \<lparr>sessionId = sid, candidateId = cid, sessionStorageType = ''filesystem'',
                   container = sessionPath, locators = fst fileSlots, links = snd fileSlots,
                   metadata = JObj [],
                   candidateProfile = load_profile (readFile w) (fst fileSlots Profile),
                   createdAt = JNull, originalFilename = JNull\<rparr>"
    using fsform by (simp add: load_metadata_empty make_session_empty)
  have c16: "fs_readdir w sessionPath = Inr files
        \<and> fst fileSlots Profile = Some p \<and> unreadable (readFile w) p
        \<and> load_metadata (readFile w) (fst fileSlots Metadata) \<noteq> JNull
        \<longrightarrow> (\<exists>s. fs_session w cid sid = Inr s \<and> sessionId s = sid
                 \<and> candidateProfile s = []
                 \<and> metadata s = load_metadata (readFile w) (fst fileSlots Metadata))"
  proof (intro impI, elim conjE)
    assume l: "fs_readdir w sessionPath = Inr files"
      and k: "fst fileSlots Profile = Some p" "unreadable (readFile w) p"
      and m: "load_metadata (readFile w) (fst fileSlots Metadata) \<noteq> JNull"
    obtain s where s: "make_session sid cid ''filesystem'' sessionPath fileSlots
               (load_metadata (readFile w) (fst fileSlots Metadata)) [] = Inr s"
      using make_session_succeeds[OF m] by blast
    have "fs_session w cid sid = Inr s"
      using fsform[OF l] s k by (simp add: load_profile_empty)
    then show "\<exists>s. fs_session w cid sid = Inr s \<and> sessionId s = sid
                 \<and> candidateProfile s = []
                 \<and> metadata s = load_metadata (readFile w) (fst fileSlots Metadata)"
      using make_session_fields[OF s] by blast
  qed
  show ?thesis
    by (intro conjI) (rule c1 c2 c3 c4 c5 c6 c7 c8 c9 c10 c11 c12 c13 c14 c15 c16)+
qed

theorem listing_failure_policy_witness:
  "listS3Candidates denied_bucket = Inr []
   \<and> listS3Sessions denied_bucket ''c1'' = Inr []
   \<and> getS3SessionData denied_bucket ''c1'' ''s1'' = Inr None
   \<and> map_sum id (map_option (\<lambda>s. (sessionId s, metadata s, createdAt s)))
         (getS3SessionData bucket_world ''c1'' ''s1'') = Inr (Some (''s1'', JObj [], JNull))
   \<and> (\<exists>sessions. listS3Sessions bucket_world ''c1'' = Inr sessions
         \<and> mset (map sessionId sessions) = {#''s1'', ''s2''#})
   \<and> fs_session locked_session ''c1'' ''s2'' = Inl (ErrnoError ''EACCES'')
   \<and> listFilesystemSessions locked_session ''c1'' = Inl (ErrnoError ''EACCES'')
   \<and> listFilesystemCandidates locked_session = Inl (ErrnoError ''EACCES'')"
proof -
  note denied = listing_failure_policy[OF refl refl refl refl refl refl refl,
      where w = denied_bucket and cid = "''c1''" and sid = "''s1''" and e = "ServiceError ''AccessDenied''"]
  have d: "s3_list denied_bucket p d = Inl (ServiceError ''AccessDenied'')" for p d
    by (simp add: denied_bucket_def)
  have 1: "listS3Candidates denied_bucket = Inr []" using denied[THEN conjunct2, THEN conjunct2, THEN conjunct1] d by blast
  have 2: "listS3Sessions denied_bucket ''c1'' = Inr []" using denied[THEN conjunct2, THEN conjunct2, THEN conjunct2, THEN conjunct1] d by blast
  have 3: "getS3SessionData denied_bucket ''c1'' ''s1'' = Inr None" using denied[THEN conjunct2, THEN conjunct2, THEN conjunct2, THEN conjunct2, THEN conjunct1] d by blast
  note bucket = listing_failure_policy[OF refl refl refl refl refl refl refl,
      where w = bucket_world and cid = "''c1''" and sid = "''s1''"
        and listResponse = "\<lparr>CommonPrefixes = None,
               Contents = Some [''candidate-data/c1/s1/metadata.json'',
                                ''candidate-data/c1/s1/candidate_profile.json'']\<rparr>"
        and key = "''candidate-data/c1/s1/metadata.json''"
        and response = "\<lparr>CommonPrefixes = Some [''candidate-data/c1/s1/'', ''candidate-data/c1/s2/''],
               Contents = None\<rparr>"]
  have b1: "s3_list bucket_world ((candidateDataPrefix bucket_world @ ''/'' @ ''c1'' @ ''/'' @ ''s1'') @ ''/'') False
      = Inr \<lparr>CommonPrefixes = None,
               Contents = Some [''candidate-data/c1/s1/metadata.json'',
                                ''candidate-data/c1/s1/candidate_profile.json'']\<rparr>"
    by code_simp
  have b2: "fst (foldl (s3_assign bucket_world) no_slots
                  (or_empty (Contents \<lparr>CommonPrefixes = None,
                     Contents = Some [''candidate-data/c1/s1/metadata.json'',
                                      ''candidate-data/c1/s1/candidate_profile.json'']\<rparr>))) Metadata
      = Some ''candidate-data/c1/s1/metadata.json''"
    by code_simp
  have b3: "unreadable (getS3Object bucket_world) ''candidate-data/c1/s1/metadata.json''"
    by code_simp
  have "getS3SessionData bucket_world ''c1'' ''s1'' =
      Inr (Some \<lparr>sessionId = ''s1'', candidateId = ''c1'', sessionStorageType = ''s3'',
                 container = bucketName bucket_world,
                 locators = fst (foldl (s3_assign bucket_world) no_slots
                  (or_empty (Contents \<lparr>CommonPrefixes = None,
                     Contents = Some [''candidate-data/c1/s1/metadata.json'',
                                      ''candidate-data/c1/s1/candidate_profile.json'']\<rparr>))),
                 links = snd (foldl (s3_assign bucket_world) no_slots
                  (or_empty (Contents \<lparr>CommonPrefixes = None,
                     Contents = Some [''candidate-data/c1/s1/metadata.json'',
                                      ''candidate-data/c1/s1/candidate_profile.json'']\<rparr>))),
                 metadata = JObj [],
                 candidateProfile = load_profile (getS3Object bucket_world)
                   (fst (foldl (s3_assign bucket_world) no_slots
                  (or_empty (Contents \<lparr>CommonPrefixes = None,
                     Contents = Some [''candidate-data/c1/s1/metadata.json'',
                                      ''candidate-data/c1/s1/candidate_profile.json'']\<rparr>))) Profile),
                 createdAt = JNull, originalFilename = JNull\<rparr>)"
    using bucket[THEN conjunct2, THEN conjunct2, THEN conjunct2, THEN conjunct2, THEN conjunct2, THEN conjunct2, THEN conjunct2, THEN conjunct1] b1 b2 b3 by blast
  then have 4: "map_sum id (map_option (\<lambda>s. (sessionId s, metadata s, createdAt s)))
         (getS3SessionData bucket_world ''c1'' ''s1'') = Inr (Some (''s1'', JObj [], JNull))"
    by simp
  have b4: "s3_list bucket_world (candidateDataPrefix bucket_world @ ''/'' @ ''c1'' @ ''/'') True
      = Inr \<lparr>CommonPrefixes = Some [''candidate-data/c1/s1/'', ''candidate-data/c1/s2/''],
               Contents = None\<rparr>"
    by code_simp
  have b5: "length (or_empty (CommonPrefixes
              \<lparr>CommonPrefixes = Some [''candidate-data/c1/s1/'', ''candidate-data/c1/s2/''],
               Contents = None\<rparr>)) < 64"
    by code_simp
  have b6: "map sessionId
              (non_null (map (\<lambda>commonPrefix. projr (getS3SessionData bucket_world ''c1''
                                (id_of_prefix (candidateDataPrefix bucket_world @ ''/'' @ ''c1'' @ ''/'') commonPrefix)))
                 (or_empty (CommonPrefixes
                    \<lparr>CommonPrefixes = Some [''candidate-data/c1/s1/'', ''candidate-data/c1/s2/''],
                     Contents = None\<rparr>))))
            = [''s1'', ''s2'']"
    by code_simp
  obtain sessions where ss: "listS3Sessions bucket_world ''c1'' = Inr sessions"
    "mset sessions =
       mset (non_null (map (\<lambda>commonPrefix. projr (getS3SessionData bucket_world ''c1''
                                (id_of_prefix (candidateDataPrefix bucket_world @ ''/'' @ ''c1'' @ ''/'') commonPrefix)))
                 (or_empty (CommonPrefixes
                    \<lparr>CommonPrefixes = Some [''candidate-data/c1/s1/'', ''candidate-data/c1/s2/''],
                     Contents = None\<rparr>))))"
    using bucket[THEN conjunct2, THEN conjunct2, THEN conjunct2, THEN conjunct2, THEN conjunct2, THEN conjunct1] b4 b5 by blast
  have "mset (map sessionId sessions) = image_mset sessionId (mset sessions)" by simp
  also have "\<dots> = mset [''s1'', ''s2'']" unfolding ss(2) by (simp only: mset_map[symmetric] b6)
  finally have 5: "\<exists>sessions. listS3Sessions bucket_world ''c1'' = Inr sessions
         \<and> mset (map sessionId sessions) = {#''s1'', ''s2''#}"
    using ss(1) by simp
  note locked = listing_failure_policy[OF refl refl refl refl refl refl refl,
      where w = locked_session and cid = "''c1''" and sid = "''s2''" and e = "ErrnoError ''EACCES''"
        and sessionEntries = "[(''s1'', True), (''s2'', True), (''s3'', True)]"
        and before = "[''s1'']" and after = "[''s3'']"
        and candidateEntries = "[(''c1'', True)]" and earlier = "[]" and later = "[]"]
  have l1: "fs_readdir locked_session (path_join [path_join [candidateDataPath locked_session, ''c1''], ''s2''])
      = Inl (ErrnoError ''EACCES'')"
    by code_simp
  have l2: "fs_readdir locked_session (path_join [candidateDataPath locked_session, ''c1''])
      = Inr [(''s1'', True), (''s2'', True), (''s3'', True)]"
    by code_simp
  have l3: "fs_readdir locked_session (candidateDataPath locked_session) = Inr [(''c1'', True)]"
    by code_simp
  have "\<not> isl (fs_session locked_session ''c1'' ''s1'')" by code_simp
  then have l4: "\<forall>b\<in>set [''s1'']. \<exists>s. fs_session locked_session ''c1'' b = Inr s"
    by (cases "fs_session locked_session ''c1'' ''s1''") simp_all
  have 6: "fs_session locked_session ''c1'' ''s2'' = Inl (ErrnoError ''EACCES'')"
    using locked[THEN conjunct2, THEN conjunct2, THEN conjunct2, THEN conjunct2, THEN conjunct2, THEN conjunct2, THEN conjunct2, THEN conjunct2, THEN conjunct2, THEN conjunct2, THEN conjunct2, THEN conjunct1] l1 by blast
  have l5: "map fst (filter snd [(''s1'', True), (''s2'', True), (''s3'', True)]) = [''s1''] @ ''s2'' # [''s3'']"
    "map fst (filter snd [(''c1'', True)]) = [] @ ''c1'' # []"
    "error_code (ErrnoError ''EACCES'') \<noteq> Some ''ENOENT''"
    by simp_all
  have "listFilesystemSessions locked_session ''c1''
          = (if error_code (ErrnoError ''EACCES'') = Some ''ENOENT'' then Inr [] else Inl (ErrnoError ''EACCES''))"
    using locked[THEN conjunct2, THEN conjunct2, THEN conjunct2, THEN conjunct2, THEN conjunct2, THEN conjunct2, THEN conjunct2, THEN conjunct2, THEN conjunct2, THEN conjunct2, THEN conjunct2, THEN conjunct2, THEN conjunct1] l2 l4 6 l5(1) by blast
  then have 7: "listFilesystemSessions locked_session ''c1'' = Inl (ErrnoError ''EACCES'')"
    using l5(3) by simp
  have 8: "listFilesystemCandidates locked_session = Inl (ErrnoError ''EACCES'')"
    using locked[THEN conjunct2, THEN conjunct2, THEN conjunct2, THEN conjunct2, THEN conjunct2, THEN conjunct2, THEN conjunct2, THEN conjunct2, THEN conjunct2, THEN conjunct2, THEN conjunct2, THEN conjunct2, THEN conjunct2, THEN conjunct1] l3 l5(2) 7 by simp
  show ?thesis using 1 2 3 4 5 6 7 8 by blast
qed

subsection \<open>The order of a listing\<close>

text \<open>
  Claim C2 fails on the code. The candidate of \<open>three_sessions\<close> has a session of 2020, a
  session without date and a session of 2021, listed by the directory in this order. Every
  comparison that involves the session without date answers "no preference", the engine never
  compares the two dated sessions with each other, and the list comes back in the order 2020, no
  date, 2021: the older dated session stands before the newer one, and the list is not sorted
  by date, newest first, as the claim and the comment of the code on this sort say.
\<close>

theorem interleaved_null_breaks_order:
  "map_sum id (map createdAt) (listFilesystemSessions three_sessions ''c1'')
     = Inr [JStr ''2020-01-01T00:00:00.000Z'', JNull, JStr ''2021-01-01T00:00:00.000Z'']
   \<and> map_sum id (newest_first three_sessions) (listFilesystemSessions three_sessions ''c1'') = Inr False"
  by code_simp

subsection \<open>The roster row\<close>

text \<open>
  Claim C4. The candidate of \<open>two_sessions\<close> has two sessions: the first in the directory
  has no date and the profile name \<^verbatim>\<open>Old\<close>, the second is dated 2021 and has the profile
  name \<^verbatim>\<open>New\<close>. The listing of the sessions leaves them in this order, and the roster row
  is taken from the first: its name is \<^verbatim>\<open>Old\<close> and its last activity is
  \<^verbatim>\<open>null\<close>, although the session with the greatest date is the second one. The count
  of sessions is right.
\<close>

theorem roster_row_from_first_session:
  "map_sum id (map sessionId) (listFilesystemSessions two_sessions ''c1'') = Inr [''s1'', ''s2'']
   \<and> map_sum id (map createdAt) (listFilesystemSessions two_sessions ''c1'')
       = Inr [JNull, JStr ''2021-01-01T00:00:00.000Z'']
   \<and> map_sum id (map candidateProfile) (listFilesystemSessions two_sessions ''c1'')
       = Inr [[(''name'', Some (JStr ''Old'')), (''location'', None), (''experience'', None),
               (''summary'', Some (JStr ''...''))],
              [(''name'', Some (JStr ''New'')), (''location'', None), (''experience'', None),
               (''summary'', Some (JStr ''...''))]]
   \<and> map_sum id (map ci_candidateId) (listFilesystemCandidates two_sessions) = Inr [''c1'']
   \<and> map_sum id (map sessionCount) (listFilesystemCandidates two_sessions) = Inr [2]
   \<and> map_sum id (map lastActivity) (listFilesystemCandidates two_sessions) = Inr [JNull]
   \<and> map_sum id (map name) (listFilesystemCandidates two_sessions) = Inr [Some (JStr ''Old'')]"
  by code_simp

subsection \<open>What a write leaves in the store\<close>

lemma writes_applied_Nil [simp]: "writes_applied fault m [] = m"
  by (simp add: writes_applied_def)

lemma writes_applied_Cons [simp]:
  "writes_applied fault m ((k, v) # ws) = writes_applied fault (if fault k = None then m(k \<mapsto> v) else m) ws"
  by (simp add: writes_applied_def)

lemma writes_applied_append [simp]:
  "writes_applied fault m (ws @ vs) = writes_applied fault (writes_applied fault m ws) vs"
  by (simp add: writes_applied_def)









declare start_all.simps [simp del]

lemma path_join_same_folder [simp]: "path_join [folder, a] = path_join [folder, b] \<longleftrightarrow> a = b"
  by simp

lemma audioFilename_not_fixed [simp]:
  "audioFilename sid a \<noteq> ''transcript.txt''"
  "audioFilename sid a \<noteq> ''candidate_profile.json''"
  "audioFilename sid a \<noteq> ''metadata.json''"
  "''transcript.txt'' \<noteq> audioFilename sid a"
  "''candidate_profile.json'' \<noteq> audioFilename sid a"
  "''metadata.json'' \<noteq> audioFilename sid a"
  by (simp_all add: audioFilename_def)



lemma audio_upload_key [simp]: "fst (audio_upload baseKey sid a c) = baseKey @ ''/'' @ audioFilename sid a"
  by (simp add: audio_upload_def)





lemma audioFilename_eq [simp]:
  "audioFilename sid a = audioFilename sid b \<longleftrightarrow> audioExtension a = audioExtension b"
  by (simp add: audioFilename_def)















subsection \<open>A write that fails\<close>

text \<open>
  Claim C9 fails on the code. On \<open>full_disk\<close> the write of \<^verbatim>\<open>metadata.json\<close> fails for
  lack of space while the copy of the audio file is still awaited. The promise of the write has
  no handler yet (\<^verbatim>\<open>Promise.all\<close> comes after the copy): the rejection is unhandled and
  ends the process, and the caller of \<^verbatim>\<open>saveCandidateData\<close> gets neither a result nor
  the failure. The transcript, written before, stays on the disk.
  The same happens on \<open>throttled_bucket\<close> when the put of \<^verbatim>\<open>metadata.json\<close> is rejected
  while the temporary upload is read. Without an audio file nothing is awaited before
  \<^verbatim>\<open>Promise.all\<close>, and the same failure does reach the caller.
\<close>

theorem write_failure_ends_process:
  "to_caller (fst (saveCandidateData full_disk 1704047400000 ''c1'' (Text ''hello'') (JObj []) (JObj [])
                     None (Some interview_upload))) = None
   \<and> unhandled (fst (saveCandidateData full_disk 1704047400000 ''c1'' (Text ''hello'') (JObj []) (JObj [])
                     None (Some interview_upload))) = Some (ErrnoError ''ENOSPC'')
   \<and> fs_files (snd (saveCandidateData full_disk 1704047400000 ''c1'' (Text ''hello'') (JObj []) (JObj [])
                     None (Some interview_upload)))
         ''candidate-data/c1/20240101-000000-IST/transcript.txt'' = Some (Text ''hello'')
   \<and> to_caller (fst (saveCandidateData throttled_bucket 1704047400000 ''c1'' (Text ''hello'') (JObj []) (JObj [])
                     None (Some interview_upload))) = None
   \<and> unhandled (fst (saveCandidateData throttled_bucket 1704047400000 ''c1'' (Text ''hello'') (JObj []) (JObj [])
                     None (Some interview_upload))) = Some (ServiceError ''SlowDown'')
   \<and> map_option (map_sum id r_sessionId)
         (to_caller (fst (saveCandidateData full_disk 1704047400000 ''c1'' (Text ''hello'') (JObj []) (JObj [])
                     None None))) = Some (Inl (ErrnoError ''ENOSPC''))
   \<and> unhandled (fst (saveCandidateData full_disk 1704047400000 ''c1'' (Text ''hello'') (JObj []) (JObj [])
                     None None)) = None"
proof -
  have "Option.is_none (to_caller (fst (saveCandidateData full_disk 1704047400000 ''c1'' (Text ''hello'')
          (JObj []) (JObj []) None (Some interview_upload))))"
    by code_simp
  moreover have "Option.is_none (to_caller (fst (saveCandidateData throttled_bucket 1704047400000 ''c1''
          (Text ''hello'') (JObj []) (JObj []) None (Some interview_upload))))"
    by code_simp
  moreover have "unhandled (fst (saveCandidateData full_disk 1704047400000 ''c1'' (Text ''hello'') (JObj []) (JObj [])
                     None (Some interview_upload))) = Some (ErrnoError ''ENOSPC'')
   \<and> fs_files (snd (saveCandidateData full_disk 1704047400000 ''c1'' (Text ''hello'') (JObj []) (JObj [])
                     None (Some interview_upload)))
         ''candidate-data/c1/20240101-000000-IST/transcript.txt'' = Some (Text ''hello'')
   \<and> unhandled (fst (saveCandidateData throttled_bucket 1704047400000 ''c1'' (Text ''hello'') (JObj []) (JObj [])
                     None (Some interview_upload))) = Some (ServiceError ''SlowDown'')
   \<and> map_option (map_sum id r_sessionId)
         (to_caller (fst (saveCandidateData full_disk 1704047400000 ''c1'' (Text ''hello'') (JObj []) (JObj [])
                     None None))) = Some (Inl (ErrnoError ''ENOSPC''))
   \<and> unhandled (fst (saveCandidateData full_disk 1704047400000 ''c1'' (Text ''hello'') (JObj []) (JObj [])
                     None None)) = None"
    by code_simp
  ultimately show ?thesis by (simp add: Option.is_none_def)
qed

subsection \<open>Two saves in the same second\<close>






subsection \<open>Sessions written by the upload pipeline\<close>





end
